theory Spec2Isabelle
  imports Complex_Main "HOL-Library.Sublist"
begin

section \<open>Road Commons Observatory: the filtering, statistics and pattern engine\<close>

text \<open>
  A shallow embedding of the computational core of \<^verbatim>\<open>src/road.old.js\<close> (the
  utilities \<^verbatim>\<open>StatsUtils\<close>, \<^verbatim>\<open>MapUtils\<close>, \<^verbatim>\<open>PatternUtils\<close> and the hooks and
  handlers of the component \<^verbatim>\<open>RoadCommonsTransparency\<close>) and of \<^verbatim>\<open>calculateStats\<close>
  in \<^verbatim>\<open>src/App.js\<close>.

  Conventions of the model.
  \<^item> A finite JavaScript Number is a \<^typ>\<open>real\<close>, the exact value of the double; the
    sign of zero is not modelled. The values that are not finite (the infinities,
    \<^verbatim>\<open>NaN\<close>, the span \<^verbatim>\<open>Infinity\<close>) are explicit constructors.
  \<^item> The operations whose result depends on binary rounding where the code applies
    them (\<^verbatim>\<open>+\<close>, \<^verbatim>\<open>-\<close>, \<^verbatim>\<open>*\<close>, \<^verbatim>\<open>/\<close> and the functions of \<^verbatim>\<open>Math\<close> on
    coordinates, response times and ratios) are parameters of the model: a record
    of the engine's operations, of which nothing is assumed. The theorems about the
    code are stated for an arbitrary such record, so they hold for the arithmetic of
    any engine. The arithmetic without rounding, \<open>exact_arith\<close>, serves the worked
    examples, at inputs where the operations on doubles are exact.
  \<^item> The arithmetic on timestamps and counts (differences and halves of epoch
    milliseconds, \<^verbatim>\<open>count * 1.2\<close>) is exact: on instants of the epoch range and on
    counts the doubles compare as the exact values do.
  \<^item> The string enumerations of the source (\<^verbatim>\<open>type\<close>, \<^verbatim>\<open>status\<close>, the lens, the
    time-window key, the pattern mode, the cluster size) are datatypes.
  \<^item> \<^verbatim>\<open>Date.now()\<close> is a parameter \<open>now\<close>.
\<close>

subsection \<open>Data model\<close>

datatype obs_type = Violation | Risk | Infrastructure

datatype obs_status = Pending | UnderReview | Acknowledged | Resolved | Dismissed

text \<open>
  An observation as \<^verbatim>\<open>generateMockObservations\<close> builds it. \<open>response_time\<close> is
  \<open>None\<close> when the property is absent (\<^verbatim>\<open>undefined\<close>).
\<close>

record observation =
  obs_id :: string
  obs_type :: obs_type
  lat :: real
  lng :: real
  timestamp :: real
  status :: obs_status
  response_time :: "real option"

text \<open>The lens is the string \<^verbatim>\<open>"all"\<close> or the name of an observation type.\<close>

datatype lens = LensAll | LensOf obs_type

datatype time_filter = W24h | W7d | W30d | Persistent

text \<open>The \<^verbatim>\<open>ms\<close> field of a time window: a finite number or \<^verbatim>\<open>Infinity\<close>.\<close>

datatype span = Ms real | Infinity

text \<open>\<^verbatim>\<open>TIME_WINDOWS[key].ms\<close>\<close>

fun TIME_WINDOWS_ms :: "time_filter \<Rightarrow> span" where
  "TIME_WINDOWS_ms W24h = Ms (24 * 60 * 60 * 1000)"
| "TIME_WINDOWS_ms W7d = Ms (7 * 24 * 60 * 60 * 1000)"
| "TIME_WINDOWS_ms W30d = Ms (30 * 24 * 60 * 60 * 1000)"
| "TIME_WINDOWS_ms Persistent = Infinity"

text \<open>The order of spans, \<^verbatim>\<open>Infinity\<close> on top (JavaScript's \<^verbatim>\<open><=\<close> on these values).\<close>

fun span_le :: "span \<Rightarrow> span \<Rightarrow> bool" where
  "span_le _ Infinity = True"
| "span_le Infinity (Ms _) = False"
| "span_le (Ms a) (Ms b) = (a \<le> b)"

subsection \<open>ClusterSizer: \<^verbatim>\<open>MapUtils.getClusterSize\<close>, \<^verbatim>\<open>MapUtils.getClusterDimensions\<close>\<close>

datatype cluster_size = Large | Medium | Small

record dimensions =
  width :: nat
  height :: nat
  fontSize :: string

definition getClusterSize :: "int \<Rightarrow> cluster_size" where
  "getClusterSize count =
     (if count > 50 then Large
      else if count > 10 then Medium
      else Small)"

fun getClusterDimensions :: "cluster_size \<Rightarrow> dimensions" where
  "getClusterDimensions Large = \<lparr>width = 50, height = 50, fontSize = ''16px''\<rparr>"
| "getClusterDimensions Medium = \<lparr>width = 40, height = 40, fontSize = ''14px''\<rparr>"
| "getClusterDimensions Small = \<lparr>width = 32, height = 32, fontSize = ''12px''\<rparr>"

text \<open>
  What \<^verbatim>\<open>iconCreateFunction\<close> computes for a cluster of \<open>count\<close> markers: the size
  tier and its pixel preset.
\<close>

definition sizeTier :: "int \<Rightarrow> cluster_size \<times> dimensions" where
  "sizeTier count = (let size = getClusterSize count in (size, getClusterDimensions size))"

subsection \<open>FilterEngine: the memo \<^verbatim>\<open>filteredData\<close>\<close>

text \<open>
  The time test of the second filter, \<^verbatim>\<open>now - obs.timestamp < timeWindow.ms\<close>.
\<close>

definition within_ms :: "real \<Rightarrow> real \<Rightarrow> observation \<Rightarrow> bool" where
  "within_ms now ms obs = (now - timestamp obs < ms)"

definition filteredData ::
  "observation list \<Rightarrow> lens \<Rightarrow> time_filter \<Rightarrow> real \<Rightarrow> observation list" where
  "filteredData observations l timeFilter now =
     (let filtered = observations;
          filtered = (if l \<noteq> LensAll
                      then filter (\<lambda>obs. LensOf (obs_type obs) = l) filtered
                      else filtered);
          timeWindow = TIME_WINDOWS_ms timeFilter
      in case timeWindow of
           Infinity \<Rightarrow> filtered
         | Ms ms \<Rightarrow> filter (within_ms now ms) filtered)"

text \<open>
  The membership test of the specification: the lens admits the observation and the
  window admits its age.
\<close>

fun lens_admits :: "lens \<Rightarrow> observation \<Rightarrow> bool" where
  "lens_admits LensAll obs = True"
| "lens_admits (LensOf t) obs = (obs_type obs = t)"

fun window_admits :: "span \<Rightarrow> real \<Rightarrow> observation \<Rightarrow> bool" where
  "window_admits Infinity now obs = True"
| "window_admits (Ms ms) now obs = (now - timestamp obs < ms)"

definition kept :: "lens \<Rightarrow> time_filter \<Rightarrow> real \<Rightarrow> observation \<Rightarrow> bool" where
  "kept l timeFilter now obs =
     (lens_admits l obs \<and> window_admits (TIME_WINDOWS_ms timeFilter) now obs)"

subsection \<open>JavaScript numbers that may not be finite, and \<^verbatim>\<open>toFixed\<close>\<close>

text \<open>
  The value of an arithmetic expression of the source: a finite number, one of the
  two infinities, or \<^verbatim>\<open>NaN\<close>.
\<close>

datatype jsnum = Num real | PosInf | NegInf | NaN

text \<open>
  The arithmetic of the JavaScript engine: for each operator and each function of
  \<^verbatim>\<open>Math\<close> that the code applies to numbers that need not be integers, the Number
  the engine returns (the rounded result, an infinity on overflow, \<^verbatim>\<open>NaN\<close>), and
  the constant \<^verbatim>\<open>Math.PI\<close>.
\<close>

record js_arith =
  fl_add :: "jsnum \<Rightarrow> jsnum \<Rightarrow> jsnum"
  fl_sub :: "jsnum \<Rightarrow> jsnum \<Rightarrow> jsnum"
  fl_mul :: "jsnum \<Rightarrow> jsnum \<Rightarrow> jsnum"
  fl_div :: "jsnum \<Rightarrow> jsnum \<Rightarrow> jsnum"
  fl_sin :: "jsnum \<Rightarrow> jsnum"
  fl_cos :: "jsnum \<Rightarrow> jsnum"
  fl_sqrt :: "jsnum \<Rightarrow> jsnum"
  fl_atan2 :: "jsnum \<Rightarrow> jsnum \<Rightarrow> jsnum"
  fl_PI :: jsnum

text \<open>
  \<^verbatim>\<open>a + b\<close>: the engine's sum of two finite numbers; with an operand that is not
  finite the result does not depend on rounding.
\<close>

fun js_add :: "js_arith \<Rightarrow> jsnum \<Rightarrow> jsnum \<Rightarrow> jsnum" where
  "js_add ar (Num a) (Num b) = fl_add ar (Num a) (Num b)"
| "js_add ar NaN _ = NaN"
| "js_add ar _ NaN = NaN"
| "js_add ar PosInf NegInf = NaN"
| "js_add ar NegInf PosInf = NaN"
| "js_add ar PosInf _ = PosInf"
| "js_add ar _ PosInf = PosInf"
| "js_add ar NegInf _ = NegInf"
| "js_add ar _ NegInf = NegInf"

text \<open>
  \<^verbatim>\<open>a / xs.length\<close>: division by the length of an array, a non-negative integer.
  Zero by zero is \<^verbatim>\<open>NaN\<close>, a non-zero number by zero is an infinity, and a finite
  number by a length that is not zero is the engine's quotient.
\<close>

fun js_div_length :: "js_arith \<Rightarrow> jsnum \<Rightarrow> nat \<Rightarrow> jsnum" where
  "js_div_length ar (Num a) n =
     (if n \<noteq> 0 then fl_div ar (Num a) (Num (real n))
      else if a > 0 then PosInf else if a < 0 then NegInf else NaN)"
| "js_div_length ar PosInf n = PosInf"
| "js_div_length ar NegInf n = NegInf"
| "js_div_length ar NaN n = NaN"

text \<open>\<^verbatim>\<open>a * 100\<close>\<close>

fun js_times_100 :: "js_arith \<Rightarrow> jsnum \<Rightarrow> jsnum" where
  "js_times_100 ar (Num a) = fl_mul ar (Num a) (Num 100)"
| "js_times_100 ar PosInf = PosInf"
| "js_times_100 ar NegInf = NegInf"
| "js_times_100 ar NaN = NaN"

text \<open>
  \<^verbatim>\<open>Math.round\<close>: the integer nearest to the argument, a tie going up. The result
  is an exact function of the argument.
\<close>

fun Math_round :: "jsnum \<Rightarrow> jsnum" where
  "Math_round (Num a) = Num (of_int \<lfloor>a + 1 / 2\<rfloor>)"
| "Math_round PosInf = PosInf"
| "Math_round NegInf = NegInf"
| "Math_round NaN = NaN"

definition digit_char :: "nat \<Rightarrow> char" where
  "digit_char d = ''0123456789'' ! d"

text \<open>The decimal digits of a natural number, as \<^verbatim>\<open>String(n)\<close> prints them.\<close>

fun show_nat :: "nat \<Rightarrow> string" where
  "show_nat n = (if n < 10 then [digit_char n] else show_nat (n div 10) @ [digit_char (n mod 10)])"

declare show_nat.simps [simp del]

text \<open>
  \<^verbatim>\<open>x.toFixed(1)\<close> for a finite non-negative \<open>x\<close> below \<open>10\<^sup>2\<^sup>1\<close>, after
  ECMAScript's Number.prototype.toFixed with \<open>f = 1\<close>: \<open>n\<close> is the integer for
  which \<open>n / 10 - x\<close> is closest to zero, the larger one of two; its digits are padded
  with zeros on the left to a length of at least \<open>f + 1\<close>, and the point is put before
  the last \<open>f\<close> digits.
\<close>

definition toFixed1_nonneg :: "real \<Rightarrow> string" where
  "toFixed1_nonneg x =
     (let n = nat \<lfloor>x * 10 + 1 / 2\<rfloor>;
          m = show_nat n;
          m = (if length m \<le> 1 then replicate (2 - length m) (CHR ''0'') @ m else m);
          k = length m
      in take (k - 1) m @ ''.'' @ drop (k - 1) m)"

text \<open>
  \<^verbatim>\<open>x.toFixed(1)\<close>: a value that is not finite prints as its name, a negative one
  with a minus sign before its absolute value's digits.
\<close>

fun toFixed1 :: "jsnum \<Rightarrow> string" where
  "toFixed1 NaN = ''NaN''"
| "toFixed1 PosInf = ''Infinity''"
| "toFixed1 NegInf = ''-Infinity''"
| "toFixed1 (Num x) = (if x < 0 then ''-'' @ toFixed1_nonneg (- x) else toFixed1_nonneg x)"

subsection \<open>StatsCalculator: \<^verbatim>\<open>StatsUtils.calculateObservationStats\<close> (road.old.js)\<close>

record by_type =
  violation :: nat
  risk :: nat
  infrastructure :: nat

record stats =
  total :: nat
  byType :: by_type
  avgResponseTime :: jsnum
  reviewRate :: string

text \<open>
  The truthiness of \<^verbatim>\<open>o.response_time\<close>: false when absent and when zero.
\<close>

fun truthy :: "real option \<Rightarrow> bool" where
  "truthy None = False"
| "truthy (Some r) = (r \<noteq> 0)"

text \<open>\<^verbatim>\<open>o.response_time > 0\<close>: false when absent.\<close>

fun positive :: "real option \<Rightarrow> bool" where
  "positive None = False"
| "positive (Some r) = (r > 0)"

text \<open>The operand \<^verbatim>\<open>o.response_time\<close> of a sum: \<^verbatim>\<open>undefined\<close> adds as \<^verbatim>\<open>NaN\<close>.\<close>

fun to_number :: "real option \<Rightarrow> jsnum" where
  "to_number None = NaN"
| "to_number (Some r) = Num r"

text \<open>\<^verbatim>\<open>xs.reduce((acc, o) => acc + o.response_time, 0)\<close>\<close>

definition sum_response_time :: "js_arith \<Rightarrow> observation list \<Rightarrow> jsnum" where
  "sum_response_time ar xs =
     foldl (\<lambda>acc obs. js_add ar acc (to_number (response_time obs))) (Num 0) xs"

definition count_by_type :: "obs_type \<Rightarrow> observation list \<Rightarrow> nat" where
  "count_by_type t xs = length (filter (\<lambda>obs. obs_type obs = t) xs)"

definition calculateObservationStats :: "js_arith \<Rightarrow> observation list \<Rightarrow> stats" where
  "calculateObservationStats ar observations =
     (let total = length observations in
      if total = 0
      then \<lparr>total = 0, byType = \<lparr>violation = 0, risk = 0, infrastructure = 0\<rparr>,
            avgResponseTime = Num 0, reviewRate = ''0.0''\<rparr>
      else
        let byType = \<lparr>violation = count_by_type Violation observations,
                      risk = count_by_type Risk observations,
                      infrastructure = count_by_type Infrastructure observations\<rparr>;
            withResponseTime =
              filter (\<lambda>obs. truthy (response_time obs) \<and> positive (response_time obs)) observations;
            avgResponseTime =
              (if length withResponseTime > 0
               then Math_round (js_div_length ar (sum_response_time ar withResponseTime)
                                                 (length withResponseTime))
               else Num 0);
            reviewed = length (filter (\<lambda>obs. status obs \<noteq> Pending) observations);
            reviewRate =
              (if total > 0
               then toFixed1 (js_times_100 ar (js_div_length ar (Num (real reviewed)) total))
               else ''0.0'')
        in \<lparr>total = total, byType = byType, avgResponseTime = avgResponseTime,
            reviewRate = reviewRate\<rparr>)"

subsection \<open>\<^verbatim>\<open>calculateStats\<close> (App.js)\<close>

text \<open>
  The same statistics as App.js computes them, over its \<^verbatim>\<open>filteredData\<close>: no test
  of the total, and the response times are kept when truthy.
\<close>

definition calculateStats :: "js_arith \<Rightarrow> observation list \<Rightarrow> stats" where
  "calculateStats ar filtered =
     (let total = length filtered;
          byType = \<lparr>violation = count_by_type Violation filtered,
                    risk = count_by_type Risk filtered,
                    infrastructure = count_by_type Infrastructure filtered\<rparr>;
          avgResponseTime =
            js_div_length ar
              (sum_response_time ar (filter (\<lambda>obs. truthy (response_time obs)) filtered))
              (length (filter (\<lambda>obs. truthy (response_time obs)) filtered));
          reviewRate =
            toFixed1 (js_times_100 ar
              (js_div_length ar
                 (Num (real (length (filter (\<lambda>obs. status obs \<noteq> Pending) filtered))))
                 total))
      in \<lparr>total = total, byType = byType, avgResponseTime = Math_round avgResponseTime,
          reviewRate = reviewRate\<rparr>)"

subsection \<open>The memo \<^verbatim>\<open>stats\<close> and the tracking of the visible observations\<close>

text \<open>
  Modelled from the spec: the rectangle of the map surface and the test
  \<^verbatim>\<open>bounds.contains([lat, lng])\<close> of the map library, which is not part of the
  repository; the boundary is inside.
\<close>

record bounds =
  south :: real
  west :: real
  north :: real
  east :: real

definition contains :: "bounds \<Rightarrow> real \<times> real \<Rightarrow> bool" where
  "contains b p = (south b \<le> fst p \<and> fst p \<le> north b \<and> west b \<le> snd p \<and> snd p \<le> east b)"

text \<open>
  \<^verbatim>\<open>updateVisibleObservations\<close>: the filtered observations inside the bounds, stored by
  \<^verbatim>\<open>setVisibleObservations\<close> unless the previous list has the same ids in the same
  places.
\<close>

definition updateVisibleObservations ::
  "bounds \<Rightarrow> observation list \<Rightarrow> observation list \<Rightarrow> observation list" where
  "updateVisibleObservations b filtered prev =
     (let visible = filter (\<lambda>obs. contains b (lat obs, lng obs)) filtered
      in if length prev = length visible
            \<and> list_all (\<lambda>idx. obs_id (prev ! idx) = obs_id (visible ! idx)) [0..<length prev]
         then prev
         else visible)"

text \<open>The memo \<^verbatim>\<open>stats\<close> of the component.\<close>

definition stats_memo :: "js_arith \<Rightarrow> observation list \<Rightarrow> observation list \<Rightarrow> stats" where
  "stats_memo ar visibleObservations filtered =
     (let dataToUse = (if length visibleObservations > 0 then visibleObservations else filtered)
      in calculateObservationStats ar dataToUse)"

subsection \<open>Comparisons of JavaScript numbers\<close>

text \<open>\<^verbatim>\<open>a < b\<close> and \<^verbatim>\<open>a <= b\<close>: false whenever an operand is \<^verbatim>\<open>NaN\<close>.\<close>

fun js_less :: "jsnum \<Rightarrow> jsnum \<Rightarrow> bool" where
  "js_less (Num a) (Num b) = (a < b)"
| "js_less (Num a) PosInf = True"
| "js_less NegInf (Num b) = True"
| "js_less NegInf PosInf = True"
| "js_less _ _ = False"

fun js_le :: "jsnum \<Rightarrow> jsnum \<Rightarrow> bool" where
  "js_le (Num a) (Num b) = (a \<le> b)"
| "js_le (Num a) PosInf = True"
| "js_le NegInf (Num b) = True"
| "js_le NegInf PosInf = True"
| "js_le NegInf NegInf = True"
| "js_le PosInf PosInf = True"
| "js_le _ _ = False"

subsection \<open>SpatialMath: \<^verbatim>\<open>MapUtils.getDistance\<close>\<close>

text \<open>
  \<^verbatim>\<open>getDistance\<close>, operation by operation in the engine's arithmetic. The product
  \<^verbatim>\<open>Math.cos(\<phi>1) * Math.cos(\<phi>2) * Math.sin(\<Delta>\<lambda> / 2) * Math.sin(\<Delta>\<lambda> / 2)\<close> associates
  to the left. The result is \<^verbatim>\<open>NaN\<close> when an operation returns it, as
  \<^verbatim>\<open>Math.sqrt(1 - a)\<close> does when the rounded \<open>a\<close> is above 1.
\<close>

definition getDistance :: "js_arith \<Rightarrow> real \<Rightarrow> real \<Rightarrow> real \<Rightarrow> real \<Rightarrow> jsnum" where
  "getDistance ar lat1 lng1 lat2 lng2 =
     (let R = Num 6371000;
          phi1 = fl_div ar (fl_mul ar (Num lat1) (fl_PI ar)) (Num 180);
          phi2 = fl_div ar (fl_mul ar (Num lat2) (fl_PI ar)) (Num 180);
          dphi = fl_div ar (fl_mul ar (fl_sub ar (Num lat2) (Num lat1)) (fl_PI ar)) (Num 180);
          dlambda = fl_div ar (fl_mul ar (fl_sub ar (Num lng2) (Num lng1)) (fl_PI ar)) (Num 180);
          a = fl_add ar
                (fl_mul ar (fl_sin ar (fl_div ar dphi (Num 2))) (fl_sin ar (fl_div ar dphi (Num 2))))
                (fl_mul ar
                   (fl_mul ar (fl_mul ar (fl_cos ar phi1) (fl_cos ar phi2))
                              (fl_sin ar (fl_div ar dlambda (Num 2))))
                   (fl_sin ar (fl_div ar dlambda (Num 2))));
          c = fl_mul ar (Num 2) (fl_atan2 ar (fl_sqrt ar a) (fl_sqrt ar (fl_sub ar (Num 1) a)))
      in fl_mul ar R c)"

subsection \<open>An arithmetic without rounding\<close>

text \<open>
  The arithmetic of the real numbers, as a record of operations: exact on finite
  operands, \<^verbatim>\<open>NaN\<close> for a division by zero, for the square root of a negative number
  and on operands that are not finite. It is no engine's arithmetic; it serves the
  worked examples, at inputs where the doubles give the same lists and counts, and
  it shows what the formulas compute when nothing is rounded.
\<close>

text \<open>\<^verbatim>\<open>Math.atan2(y, x)\<close> on real numbers: the angle of the point \<open>(x, y)\<close>.\<close>

definition atan2 :: "real \<Rightarrow> real \<Rightarrow> real" where
  "atan2 y x =
     (if x > 0 then arctan (y / x)
      else if x < 0 then (if y \<ge> 0 then arctan (y / x) + pi else arctan (y / x) - pi)
      else if y > 0 then pi / 2
      else if y < 0 then - (pi / 2)
      else 0)"

fun exact_binop :: "(real \<Rightarrow> real \<Rightarrow> real) \<Rightarrow> jsnum \<Rightarrow> jsnum \<Rightarrow> jsnum" where
  "exact_binop f (Num a) (Num b) = Num (f a b)"
| "exact_binop f _ _ = NaN"

fun exact_unop :: "(real \<Rightarrow> real) \<Rightarrow> jsnum \<Rightarrow> jsnum" where
  "exact_unop f (Num a) = Num (f a)"
| "exact_unop f _ = NaN"

fun exact_div :: "jsnum \<Rightarrow> jsnum \<Rightarrow> jsnum" where
  "exact_div (Num a) (Num b) = (if b = 0 then NaN else Num (a / b))"
| "exact_div _ _ = NaN"

fun exact_sqrt :: "jsnum \<Rightarrow> jsnum" where
  "exact_sqrt (Num a) = (if a < 0 then NaN else Num (sqrt a))"
| "exact_sqrt _ = NaN"

definition exact_arith :: js_arith where
  "exact_arith =
     \<lparr>fl_add = exact_binop (+), fl_sub = exact_binop (-), fl_mul = exact_binop (*),
      fl_div = exact_div, fl_sin = exact_unop sin, fl_cos = exact_unop cos,
      fl_sqrt = exact_sqrt, fl_atan2 = exact_binop atan2, fl_PI = Num pi\<rparr>"

text \<open>
  The quantity \<open>a\<close> of the Haversine formula on real numbers, from degrees.
\<close>

definition haversine_a :: "real \<Rightarrow> real \<Rightarrow> real \<Rightarrow> real \<Rightarrow> real" where
  "haversine_a lat1 lng1 lat2 lng2 =
     (let phi1 = (lat1 * pi) / 180;
          phi2 = (lat2 * pi) / 180;
          dphi = ((lat2 - lat1) * pi) / 180;
          dlambda = ((lng2 - lng1) * pi) / 180
      in sin (dphi / 2) * sin (dphi / 2)
         + cos phi1 * cos phi2 * sin (dlambda / 2) * sin (dlambda / 2))"

text \<open>
  The great-circle distance of the Haversine formula in its textbook form, on a
  sphere of radius 6,371,000 m.
\<close>

definition haversine_distance :: "real \<Rightarrow> real \<Rightarrow> real \<Rightarrow> real \<Rightarrow> real" where
  "haversine_distance lat1 lng1 lat2 lng2 =
     2 * 6371000 * arcsin (sqrt ((sin ((lat2 - lat1) * pi / 360))\<^sup>2
                                 + cos (lat1 * pi / 180) * cos (lat2 * pi / 180)
                                   * (sin ((lng2 - lng1) * pi / 360))\<^sup>2))"

subsection \<open>PatternAnalyzer: \<^verbatim>\<open>PatternUtils\<close>\<close>

definition getMatchingObservations :: "observation list \<Rightarrow> observation \<Rightarrow> observation list" where
  "getMatchingObservations observations referenceObservation =
     filter (\<lambda>obs. obs_type obs = obs_type referenceObservation) observations"

text \<open>
  \<^verbatim>\<open>getNearbyObservations\<close>: the test \<^verbatim>\<open>distance <= radiusMeters\<close> is false for a
  distance that is \<^verbatim>\<open>NaN\<close>.
\<close>

definition getNearbyObservations ::
  "js_arith \<Rightarrow> observation list \<Rightarrow> real \<Rightarrow> real \<Rightarrow> real \<Rightarrow> observation list" where
  "getNearbyObservations ar observations centerLat centerLng radiusMeters =
     filter (\<lambda>obs. let distance = getDistance ar centerLat centerLng (lat obs) (lng obs)
                   in js_le distance (Num radiusMeters))
       observations"

text \<open>The decimal digits of an integer, with its sign.\<close>

definition show_int :: "int \<Rightarrow> string" where
  "show_int i = (if i < 0 then ''-'' @ show_nat (nat (- i)) else show_nat (nat i))"

text \<open>\<^verbatim>\<open>Math.floor\<close>, an exact function of its argument.\<close>

fun Math_floor :: "jsnum \<Rightarrow> jsnum" where
  "Math_floor (Num a) = Num (of_int \<lfloor>a\<rfloor>)"
| "Math_floor PosInf = PosInf"
| "Math_floor NegInf = NegInf"
| "Math_floor NaN = NaN"

text \<open>
  \<^verbatim>\<open>`${v}`\<close> for a Number \<open>v\<close> that \<^verbatim>\<open>Math.floor\<close> returned: its name when it is not
  finite, the decimal digits of the integer otherwise. (From \<open>10\<^sup>2\<^sup>1\<close> on the
  engine prints an integer in exponent notation; distinct numbers still print
  distinctly, which is all the number of keys depends on.)
\<close>

fun template_string :: "jsnum \<Rightarrow> string" where
  "template_string (Num a) = show_int \<lfloor>a\<rfloor>"
| "template_string PosInf = ''Infinity''"
| "template_string NegInf = ''-Infinity''"
| "template_string NaN = ''NaN''"

text \<open>
  The key of the grid cell of an observation, the template string
  \<^verbatim>\<open>`${Math.floor(obs.lat * 100)}_${Math.floor(obs.lng * 100)}`\<close>, with the engine's
  products.
\<close>

definition zone_key :: "js_arith \<Rightarrow> observation \<Rightarrow> string" where
  "zone_key ar obs =
     template_string (Math_floor (fl_mul ar (Num (lat obs)) (Num 100)))
     @ ''_'' @ template_string (Math_floor (fl_mul ar (Num (lng obs)) (Num 100)))"

text \<open>\<^verbatim>\<open>now - timeWindowMs / 2\<close>, which is \<open>-Infinity\<close> for the unbounded window.\<close>

fun midpoint :: "real \<Rightarrow> span \<Rightarrow> jsnum" where
  "midpoint now (Ms ms) = Num (now - ms / 2)"
| "midpoint now Infinity = NegInf"

datatype trend = Stable | Increasing | Declining

text \<open>
  The classification both statistics end with: \<open>trend\<close> starts as stable and is
  overwritten by the first test that holds.
\<close>

definition classify_trend :: "nat \<Rightarrow> nat \<Rightarrow> trend" where
  "classify_trend recentCount olderCount =
     (if real recentCount > real olderCount * 1.2 then Increasing
      else if real recentCount < real olderCount * 0.8 then Declining
      else Stable)"

record city_wide_stats =
  total :: nat
  affectedZones :: nat
  trend :: trend
  recentCount :: nat

text \<open>
  \<^verbatim>\<open>calculateCityWideStats\<close>. The size of the \<^verbatim>\<open>Set\<close> of keys is the number of
  distinct keys. (The list \<^verbatim>\<open>recentObs\<close> of the source is computed and never used.)
\<close>

definition calculateCityWideStats ::
  "js_arith \<Rightarrow> observation list \<Rightarrow> span \<Rightarrow> real \<Rightarrow> city_wide_stats" where
  "calculateCityWideStats ar observations timeWindowMs now =
     (let uniqueZones = length (remdups (map (zone_key ar) observations));
          mid = midpoint now timeWindowMs;
          recentCount = length (filter (\<lambda>obs. js_less mid (Num (timestamp obs))) observations);
          olderCount = length (filter (\<lambda>obs. js_le (Num (timestamp obs)) mid) observations)
      in \<lparr>total = length observations, affectedZones = uniqueZones,
          trend = classify_trend recentCount olderCount, recentCount = recentCount\<rparr>)"

record local_stats =
  count :: nat
  timeSpanDays :: int
  trend :: trend

text \<open>
  \<^verbatim>\<open>calculateLocalStats\<close>: \<open>None\<close> is the \<^verbatim>\<open>null\<close> of the empty list. The
  timestamps are sorted in ascending order and the span runs from the first to the
  last.
\<close>

definition calculateLocalStats :: "observation list \<Rightarrow> span \<Rightarrow> real \<Rightarrow> local_stats option" where
  "calculateLocalStats observations timeWindowMs now =
     (if length observations = 0 then None
      else
        let timestamps = sort (map timestamp observations);
            timeSpan = timestamps ! (length timestamps - 1) - timestamps ! 0;
            timeSpanDays = \<lceil>timeSpan / (1000 * 60 * 60 * 24)\<rceil>;
            mid = midpoint now timeWindowMs;
            recentCount = length (filter (\<lambda>obs. js_less mid (Num (timestamp obs))) observations);
            olderCount = length (filter (\<lambda>obs. js_le (Num (timestamp obs)) mid) observations)
        in Some \<lparr>count = length observations, timeSpanDays = timeSpanDays,
                 trend = classify_trend recentCount olderCount\<rparr>)"


text \<open>
  The analysis of \<^verbatim>\<open>handleLocalPattern\<close>: the observations of the reference's type
  within the radius of the reference, and their statistics.
\<close>

definition localPattern ::
  "js_arith \<Rightarrow> observation \<Rightarrow> observation list \<Rightarrow> real \<Rightarrow> span \<Rightarrow> real
     \<Rightarrow> observation list \<times> local_stats option" where
  "localPattern ar reference filtered radiusMeters timeWindowMs now =
     (let nearbyObs = getNearbyObservations ar
                        (filter (\<lambda>obs. obs_type obs = obs_type reference) filtered)
                        (lat reference) (lng reference) radiusMeters;
          stats = calculateLocalStats nearbyObs timeWindowMs now
      in (nearbyObs, stats))"

subsection \<open>One decimal place\<close>

text \<open>
  A number of tenths \<open>n\<close> written with one decimal place: the digits of
  \<open>n div 10\<close>, the point, the digit \<open>n mod 10\<close>.
\<close>

definition one_decimal :: "nat \<Rightarrow> string" where
  "one_decimal n = show_nat (n div 10) @ ''.'' @ [digit_char (n mod 10)]"

subsection \<open>The pattern analysis as the specification words it\<close>




subsection \<open>PatternModeController: the state of the component and its handlers\<close>

text \<open>
  \<^verbatim>\<open>MapUtils.getBoundsForPoints\<close>: \<open>None\<close> is the \<^verbatim>\<open>null\<close> of the empty list,
  otherwise the south-west and north-east corners.
\<close>

definition getBoundsForPoints :: "observation list \<Rightarrow> ((real \<times> real) \<times> (real \<times> real)) option" where
  "getBoundsForPoints points =
     (if length points = 0 then None
      else
        let start = (lat (points ! 0), lat (points ! 0), lng (points ! 0), lng (points ! 0));
            (minLat, maxLat, minLng, maxLng) =
              foldl (\<lambda>(minLat, maxLat, minLng, maxLng) p.
                       (if lat p < minLat then lat p else minLat,
                        if lat p > maxLat then lat p else maxLat,
                        if lng p < minLng then lng p else minLng,
                        if lng p > maxLng then lng p else maxLng))
                    start points
        in Some ((minLat, minLng), (maxLat, maxLng)))"

datatype pattern_mode = NONE | CITY_WIDE | LOCAL

text \<open>
  What the handlers read and write of the map instance: its centre and its zoom
  (\<^verbatim>\<open>map.getCenter()\<close>, \<^verbatim>\<open>map.getZoom()\<close>).
\<close>

record map_view =
  center :: "real \<times> real"
  zoom :: real

text \<open>
  Modelled from the spec: \<^verbatim>\<open>map.setView(center, zoom)\<close> of the map library, which
  is not part of the repository; it leaves the map at the centre and zoom it is given.
\<close>

definition setView :: "real \<times> real \<Rightarrow> real \<Rightarrow> map_view \<Rightarrow> map_view" where
  "setView c z m = m\<lparr>center := c, zoom := z\<rparr>"

record saved_map_state =
  saved_center :: "real \<times> real"
  saved_zoom :: real
  saved_selectedObservation :: observation

datatype pattern_stats = CityWideStats city_wide_stats | LocalStats "local_stats option"

record pattern_data =
  pattern_type :: obs_type
  pattern_observations :: "observation list"
  pattern_stats :: pattern_stats
  pattern_center :: "(real \<times> real) option"

text \<open>
  The state of \<^verbatim>\<open>RoadCommonsTransparency\<close> that selection, filtering and the
  pattern mode read or write: the \<^verbatim>\<open>useState\<close> variables, the memoised value of
  \<^verbatim>\<open>filteredData\<close>, the map instance of \<^verbatim>\<open>mapInstanceRef\<close> (\<open>None\<close> before the
  map is created) and the circle of \<^verbatim>\<open>localPatternCircleRef\<close> (centre and radius).
  The variables that only rendering and the viewport tracking use
  (\<^verbatim>\<open>zoomLevel\<close>, \<^verbatim>\<open>mapLoaded\<close>, \<^verbatim>\<open>visibleObservations\<close>, the marker layer) are
  left out.
\<close>

record app_state =
  observations :: "observation list"
  lens :: lens
  timeFilter :: time_filter
  filteredData_memo :: "observation list"
  selectedObservation :: "observation option"
  expandedDetail :: bool
  sidebarOpen :: bool
  patternMode :: pattern_mode
  patternData :: "pattern_data option"
  savedMapState :: "saved_map_state option"
  mapInstance :: "map_view option"
  localPatternCircle :: "((real \<times> real) \<times> real) option"

text \<open>\<^verbatim>\<open>MAP_CONFIG\<close>\<close>

definition MAP_CONFIG_center :: "real \<times> real" where
  "MAP_CONFIG_center = (19.076, 72.8777)"

definition MAP_CONFIG_initialZoom :: real where
  "MAP_CONFIG_initialZoom = 12"

definition MAP_CONFIG_localPatternRadius :: real where
  "MAP_CONFIG_localPatternRadius = 200"

text \<open>The state after the first render, for a corpus and the instant of that render.\<close>

definition initial_state :: "observation list \<Rightarrow> real \<Rightarrow> app_state" where
  "initial_state corpus now =
     \<lparr>observations = corpus, lens = LensAll, timeFilter = W30d,
      filteredData_memo = filteredData corpus LensAll W30d now,
      selectedObservation = None, expandedDetail = False, sidebarOpen = True,
      patternMode = NONE, patternData = None, savedMapState = None,
      mapInstance = None, localPatternCircle = None\<rparr>"

text \<open>
  \<^verbatim>\<open>setLens\<close> and \<^verbatim>\<open>setTimeFilter\<close>: a value equal to the current one changes
  nothing; a new one is stored and the memo \<^verbatim>\<open>filteredData\<close> is computed again, at
  the instant \<open>now\<close> of the render.
\<close>

definition setLens :: "lens \<Rightarrow> real \<Rightarrow> app_state \<Rightarrow> app_state" where
  "setLens l now s =
     (if l = lens s then s
      else s\<lparr>lens := l, filteredData_memo := filteredData (observations s) l (timeFilter s) now\<rparr>)"

definition setTimeFilter :: "time_filter \<Rightarrow> real \<Rightarrow> app_state \<Rightarrow> app_state" where
  "setTimeFilter w now s =
     (if w = timeFilter s then s
      else s\<lparr>timeFilter := w, filteredData_memo := filteredData (observations s) (lens s) w now\<rparr>)"

text \<open>The click handler of the marker of \<open>obs\<close>: nothing in pattern mode.\<close>

definition marker_click :: "observation \<Rightarrow> app_state \<Rightarrow> app_state" where
  "marker_click obs s =
     (if patternMode s = NONE
      then s\<lparr>selectedObservation := Some obs, expandedDetail := False, sidebarOpen := True\<rparr>
      else s)"

text \<open>\<^verbatim>\<open>onBack\<close> and \<^verbatim>\<open>onToggleExpanded\<close> of the detail panel.\<close>

definition onBack :: "app_state \<Rightarrow> app_state" where
  "onBack s = s\<lparr>selectedObservation := None, expandedDetail := False\<rparr>"

definition onToggleExpanded :: "app_state \<Rightarrow> app_state" where
  "onToggleExpanded s = s\<lparr>expandedDetail := \<not> expandedDetail s\<rparr>"

text \<open>
  \<^verbatim>\<open>handleCityWidePattern\<close>. \<open>fitBounds\<close> is the map library's
  \<^verbatim>\<open>map.fitBounds\<close>, any function from the bounds and the current view to the new
  view; \<open>ar\<close> is the engine's arithmetic.
\<close>

definition handleCityWidePattern ::
  "((real \<times> real) \<times> (real \<times> real) \<Rightarrow> map_view \<Rightarrow> map_view) \<Rightarrow> js_arith \<Rightarrow> real \<Rightarrow> app_state
     \<Rightarrow> app_state" where
  "handleCityWidePattern fitBounds ar now s =
     (case (selectedObservation s, mapInstance s) of
        (Some sel, Some m) \<Rightarrow>
          let saved = \<lparr>saved_center = center m, saved_zoom = zoom m,
                       saved_selectedObservation = sel\<rparr>;
              matchingObs = getMatchingObservations (filteredData_memo s) sel;
              timeWindowMs = TIME_WINDOWS_ms (timeFilter s);
              stats = calculateCityWideStats ar matchingObs timeWindowMs now;
              m' = (case getBoundsForPoints matchingObs of
                      Some b \<Rightarrow> fitBounds b m
                    | None \<Rightarrow> m)
          in s\<lparr>savedMapState := Some saved,
               mapInstance := Some m',
               patternMode := CITY_WIDE,
               patternData := Some \<lparr>pattern_type = obs_type sel,
                                      pattern_observations = matchingObs,
                                      pattern_stats = CityWideStats stats,
                                      pattern_center = None\<rparr>,
               selectedObservation := None,
               expandedDetail := False\<rparr>
      | _ \<Rightarrow> s)"

text \<open>\<^verbatim>\<open>handleLocalPattern\<close>\<close>

definition handleLocalPattern :: "js_arith \<Rightarrow> real \<Rightarrow> app_state \<Rightarrow> app_state" where
  "handleLocalPattern ar now s =
     (case (selectedObservation s, mapInstance s) of
        (Some sel, Some m) \<Rightarrow>
          let saved = \<lparr>saved_center = center m, saved_zoom = zoom m,
                       saved_selectedObservation = sel\<rparr>;
              nearbyObs = getNearbyObservations ar
                            (filter (\<lambda>obs. obs_type obs = obs_type sel) (filteredData_memo s))
                            (lat sel) (lng sel) MAP_CONFIG_localPatternRadius;
              timeWindowMs = TIME_WINDOWS_ms (timeFilter s);
              stats = calculateLocalStats nearbyObs timeWindowMs now;
              m' = setView (lat sel, lng sel) (zoom m) m
          in s\<lparr>savedMapState := Some saved,
               mapInstance := Some m',
               localPatternCircle := Some ((lat sel, lng sel), MAP_CONFIG_localPatternRadius),
               patternMode := LOCAL,
               patternData := Some \<lparr>pattern_type = obs_type sel,
                                      pattern_observations = nearbyObs,
                                      pattern_stats = LocalStats stats,
                                      pattern_center = Some (lat sel, lng sel)\<rparr>,
               selectedObservation := None,
               expandedDetail := False\<rparr>
      | _ \<Rightarrow> s)"

text \<open>\<^verbatim>\<open>handleClearPatternMode\<close>\<close>

definition handleClearPatternMode :: "app_state \<Rightarrow> app_state" where
  "handleClearPatternMode s =
     (case (mapInstance s, savedMapState s) of
        (Some m, Some saved) \<Rightarrow>
          s\<lparr>localPatternCircle := None,
            mapInstance := Some (setView (saved_center saved) (saved_zoom saved) m),
            selectedObservation := Some (saved_selectedObservation saved),
            patternMode := NONE,
            patternData := None,
            savedMapState := None\<rparr>
      | _ \<Rightarrow> s)"

text \<open>
  The effect that checks the selection against the filtered list:
  \<^verbatim>\<open>filteredData.find((obs) => obs.id === selectedObservation.id)\<close>.
\<close>

definition deselect_effect :: "app_state \<Rightarrow> app_state" where
  "deselect_effect s =
     (case selectedObservation s of
        Some sel \<Rightarrow>
          (if find (\<lambda>obs. obs_id obs = obs_id sel) (filteredData_memo s) = None
           then s\<lparr>selectedObservation := None, expandedDetail := False\<rparr>
           else s)
      | None \<Rightarrow> s)"

text \<open>
  The events of the component: the two filter controls (with the instant of the
  render that follows), a click on a marker, the buttons of the panels, the creation
  of the map and a move of the map by the user.
\<close>

datatype event =
    SetLens lens real
  | SetTimeFilter time_filter real
  | MarkerClick observation
  | Back
  | ToggleExpanded
  | OpenSidebar
  | CityWidePattern real
  | LocalPattern real
  | ClearPattern
  | MapCreated
  | MapMoved map_view

fun handler ::
  "((real \<times> real) \<times> (real \<times> real) \<Rightarrow> map_view \<Rightarrow> map_view) \<Rightarrow> js_arith \<Rightarrow> event \<Rightarrow> app_state
     \<Rightarrow> app_state" where
  "handler fitBounds ar (SetLens l now) s = setLens l now s"
| "handler fitBounds ar (SetTimeFilter w now) s = setTimeFilter w now s"
| "handler fitBounds ar (MarkerClick obs) s = marker_click obs s"
| "handler fitBounds ar Back s = onBack s"
| "handler fitBounds ar ToggleExpanded s = onToggleExpanded s"
| "handler fitBounds ar OpenSidebar s = s\<lparr>sidebarOpen := True\<rparr>"
| "handler fitBounds ar (CityWidePattern now) s = handleCityWidePattern fitBounds ar now s"
| "handler fitBounds ar (LocalPattern now) s = handleLocalPattern ar now s"
| "handler fitBounds ar ClearPattern s = handleClearPatternMode s"
| "handler fitBounds ar MapCreated s =
     (if mapInstance s = None
      then s\<lparr>mapInstance := Some \<lparr>center = MAP_CONFIG_center, zoom = MAP_CONFIG_initialZoom\<rparr>\<rparr>
      else s)"
| "handler fitBounds ar (MapMoved v) s =
     (if mapInstance s = None then s else s\<lparr>mapInstance := Some v\<rparr>)"

text \<open>
  One step of the component: the handler of the event, the render, and the effect on
  the selection after the render. The states of the model are the states between two
  events, when the effects have run.
\<close>

definition step ::
  "((real \<times> real) \<times> (real \<times> real) \<Rightarrow> map_view \<Rightarrow> map_view) \<Rightarrow> js_arith \<Rightarrow> event \<Rightarrow> app_state
     \<Rightarrow> app_state" where
  "step fitBounds ar ev s = deselect_effect (handler fitBounds ar ev s)"

text \<open>
  An event the interface can deliver in a state: a marker exists for each observation
  of the filtered list, on a map that has been created; the handlers are free
  otherwise.
\<close>

fun deliverable :: "event \<Rightarrow> app_state \<Rightarrow> bool" where
  "deliverable (MarkerClick obs) s = (obs \<in> set (filteredData_memo s) \<and> mapInstance s \<noteq> None)"
| "deliverable _ s = True"

inductive reachable ::
  "((real \<times> real) \<times> (real \<times> real) \<Rightarrow> map_view \<Rightarrow> map_view) \<Rightarrow> js_arith \<Rightarrow> app_state \<Rightarrow> bool"
  for fitBounds ar where
    initial: "reachable fitBounds ar (initial_state corpus now)"
  | after: "reachable fitBounds ar s \<Longrightarrow> deliverable ev s
            \<Longrightarrow> reachable fitBounds ar (step fitBounds ar ev s)"

subsection \<open>Concrete observations for the worked examples\<close>

definition mk_obs ::
  "string \<Rightarrow> obs_type \<Rightarrow> real \<Rightarrow> real \<Rightarrow> real \<Rightarrow> obs_status \<Rightarrow> real option \<Rightarrow> observation" where
  "mk_obs i t la lo ts st rt =
     \<lparr>obs_id = i, obs_type = t, lat = la, lng = lo, timestamp = ts, status = st,
      response_time = rt\<rparr>"

text \<open>
  A map library whose \<^verbatim>\<open>fitBounds\<close> centres the bounds at zoom 10, a corpus of three
  observations, and the state after the map is created and the marker of the first
  observation is clicked.
\<close>

definition example_fitBounds :: "(real \<times> real) \<times> (real \<times> real) \<Rightarrow> map_view \<Rightarrow> map_view" where
  "example_fitBounds b m =
     \<lparr>center = ((fst (fst b) + fst (snd b)) / 2, (snd (fst b) + snd (snd b)) / 2), zoom = 10\<rparr>"

definition example_corpus :: "observation list" where
  "example_corpus =
     [mk_obs ''obs_0000'' Violation 19 72 99000000 Pending None,
      mk_obs ''obs_0001'' Risk 19.5 72.5 99000000 Resolved (Some 3),
      mk_obs ''obs_0002'' Violation 19.2 72.9 98000000 Resolved (Some 4)]"

definition example_selected :: app_state where
  "example_selected =
     step example_fitBounds exact_arith
       (MarkerClick (mk_obs ''obs_0000'' Violation 19 72 99000000 Pending None))
       (step example_fitBounds exact_arith MapCreated (initial_state example_corpus 100000000))"

subsection \<open>The invariant of the controller\<close>

text \<open>
  What holds between two events: the pattern mode is \<open>NONE\<close> exactly when no view is
  saved, nothing is selected in a pattern mode, a saved view has a map to return to,
  and the filtered list, the selection and the saved selection come from the corpus.
\<close>

definition controller_inv :: "app_state \<Rightarrow> bool" where
  "controller_inv s \<longleftrightarrow>
     (patternMode s = NONE \<longleftrightarrow> savedMapState s = None)
   \<and> (patternMode s \<noteq> NONE \<longrightarrow> selectedObservation s = None)
   \<and> (savedMapState s \<noteq> None \<longrightarrow> mapInstance s \<noteq> None)
   \<and> set (filteredData_memo s) \<subseteq> set (observations s)
   \<and> (\<forall>sel. selectedObservation s = Some sel \<longrightarrow> sel \<in> set (observations s))
   \<and> (\<forall>sv. savedMapState s = Some sv \<longrightarrow> saved_selectedObservation sv \<in> set (observations s))"

section \<open>Theorems\<close>

subsection \<open>FilterEngine\<close>

lemma filteredData_eq_filter:
  "filteredData corpus l tf now = filter (kept l tf now) corpus"
proof -
  have lens: "(if l \<noteq> LensAll then filter (\<lambda>obs. LensOf (obs_type obs) = l) corpus
               else corpus) = filter (lens_admits l) corpus"
    by (cases l) (auto intro: filter_cong)
  have win: "(case w of Infinity \<Rightarrow> xs | Ms ms \<Rightarrow> filter (within_ms now ms) xs)
             = filter (window_admits w now) xs" for w xs
    by (cases w) (auto simp: within_ms_def intro: filter_cong)
  have "filteredData corpus l tf now
        = filter (window_admits (TIME_WINDOWS_ms tf) now) (filter (lens_admits l) corpus)"
    unfolding filteredData_def Let_def lens win ..
  also have "\<dots> = filter (kept l tf now) corpus"
    by (auto simp: kept_def intro: filter_cong)
  finally show ?thesis .
qed

lemma TIME_WINDOWS_ms_positive: "TIME_WINDOWS_ms tf = Ms ms \<Longrightarrow> 0 < ms"
  by (cases tf) auto

lemma window_admits_mono:
  "span_le w1 w2 \<Longrightarrow> window_admits w1 now obs \<Longrightarrow> window_admits w2 now obs"
  by (cases w1; cases w2) auto

text \<open>
  C2. For every corpus, lens and time window, \<open>filteredData\<close> keeps exactly the
  observations \<open>o\<close> with (lens is "all" or \<open>o.type\<close> is the lens) and (the window's span
  is infinite or \<open>now - o.timestamp\<close> is below the span); an observation of negative
  age (\<open>o.timestamp > now\<close>) that the lens admits is never excluded by the window test;
  and the result is a subsequence of the corpus, in corpus order.
\<close>

theorem filteredData_keeps_exactly:
  "filteredData corpus l tf now
     = filter (\<lambda>obs. (l = LensAll \<or> LensOf (obs_type obs) = l)
                     \<and> (TIME_WINDOWS_ms tf = Infinity
                        \<or> (\<exists>ms. TIME_WINDOWS_ms tf = Ms ms \<and> now - timestamp obs < ms)))
         corpus
   \<and> (\<forall>obs \<in> set corpus.
         now < timestamp obs \<and> (l = LensAll \<or> LensOf (obs_type obs) = l)
         \<longrightarrow> obs \<in> set (filteredData corpus l tf now))
   \<and> subseq (filteredData corpus l tf now) corpus"
proof -
  have lens: "lens_admits l obs \<longleftrightarrow> (l = LensAll \<or> LensOf (obs_type obs) = l)" for obs
    by (cases l) auto
  have win: "window_admits w now obs
             \<longleftrightarrow> (w = Infinity \<or> (\<exists>ms. w = Ms ms \<and> now - timestamp obs < ms))" for w obs
    by (cases w) auto
  have eq: "kept l tf now
            = (\<lambda>obs. (l = LensAll \<or> LensOf (obs_type obs) = l)
                     \<and> (TIME_WINDOWS_ms tf = Infinity
                        \<or> (\<exists>ms. TIME_WINDOWS_ms tf = Ms ms \<and> now - timestamp obs < ms)))"
    by (rule ext) (simp only: kept_def lens win)
  have skew: "window_admits (TIME_WINDOWS_ms tf) now obs" if "now < timestamp obs" for obs
  proof (cases "TIME_WINDOWS_ms tf")
    case (Ms ms)
    from TIME_WINDOWS_ms_positive [OF Ms] that have "now - timestamp obs < ms"
      by linarith
    with Ms show ?thesis by simp
  next
    case Infinity
    then show ?thesis by simp
  qed
  have "filteredData corpus l tf now = filter (kept l tf now) corpus"
    by (rule filteredData_eq_filter)
  moreover have "\<forall>obs \<in> set corpus.
         now < timestamp obs \<and> (l = LensAll \<or> LensOf (obs_type obs) = l)
         \<longrightarrow> obs \<in> set (filter (kept l tf now) corpus)"
    using skew by (auto simp: kept_def lens)
  moreover have "subseq (filter (kept l tf now) corpus) corpus"
    by simp
  ultimately show ?thesis
    unfolding eq by simp
qed

theorem filteredData_keeps_exactly_witness:
  "filteredData
     [mk_obs ''obs_0000'' Violation 19 72 99000000 Pending None,
      mk_obs ''obs_0001'' Risk 19 72 100005000 Resolved (Some 3),
      mk_obs ''obs_0002'' Violation 19 72 10000000 Resolved (Some 4)]
     LensAll W24h 100000000
   = [mk_obs ''obs_0000'' Violation 19 72 99000000 Pending None,
      mk_obs ''obs_0001'' Risk 19 72 100005000 Resolved (Some 3)]
   \<and> 100000000 < timestamp (mk_obs ''obs_0001'' Risk 19 72 100005000 Resolved (Some 3))
   \<and> mk_obs ''obs_0001'' Risk 19 72 100005000 Resolved (Some 3)
       \<in> set (filteredData
           [mk_obs ''obs_0000'' Violation 19 72 99000000 Pending None,
            mk_obs ''obs_0001'' Risk 19 72 100005000 Resolved (Some 3),
            mk_obs ''obs_0002'' Violation 19 72 10000000 Resolved (Some 4)]
           LensAll W24h 100000000)"
  using filteredData_keeps_exactly
     [of "[mk_obs ''obs_0000'' Violation 19 72 99000000 Pending None,
           mk_obs ''obs_0001'' Risk 19 72 100005000 Resolved (Some 3),
           mk_obs ''obs_0002'' Violation 19 72 10000000 Resolved (Some 4)]"
         LensAll W24h 100000000]
  by (simp add: mk_obs_def)

text \<open>
  C7. Window monotonicity: for a fixed corpus, lens and instant, a window whose span is
  at most the span of another keeps a subset of what the other keeps.
\<close>

theorem filteredData_window_mono:
  assumes "span_le (TIME_WINDOWS_ms w1) (TIME_WINDOWS_ms w2)"
  shows "set (filteredData corpus l w1 now) \<subseteq> set (filteredData corpus l w2 now)"
  using assms window_admits_mono
  by (auto simp: filteredData_eq_filter kept_def)

theorem filteredData_window_mono_witness:
  "span_le (TIME_WINDOWS_ms W24h) (TIME_WINDOWS_ms W7d)
   \<and> set (filteredData
           [mk_obs ''obs_0000'' Violation 19 72 99000000 Pending None,
            mk_obs ''obs_0002'' Violation 19 72 (-100000000) Resolved (Some 4)]
           (LensOf Violation) W24h 100000000)
     \<subseteq> set (filteredData
           [mk_obs ''obs_0000'' Violation 19 72 99000000 Pending None,
            mk_obs ''obs_0002'' Violation 19 72 (-100000000) Resolved (Some 4)]
           (LensOf Violation) W7d 100000000)
   \<and> filteredData
           [mk_obs ''obs_0000'' Violation 19 72 99000000 Pending None,
            mk_obs ''obs_0002'' Violation 19 72 (-100000000) Resolved (Some 4)]
           (LensOf Violation) W24h 100000000
      = [mk_obs ''obs_0000'' Violation 19 72 99000000 Pending None]
   \<and> length (filteredData
           [mk_obs ''obs_0000'' Violation 19 72 99000000 Pending None,
            mk_obs ''obs_0002'' Violation 19 72 (-100000000) Resolved (Some 4)]
           (LensOf Violation) W7d 100000000) = 2"
proof -
  have h: "span_le (TIME_WINDOWS_ms W24h) (TIME_WINDOWS_ms W7d)"
    by simp
  show ?thesis
    using h filteredData_window_mono [OF h, of
        "[mk_obs ''obs_0000'' Violation 19 72 99000000 Pending None,
          mk_obs ''obs_0002'' Violation 19 72 (-100000000) Resolved (Some 4)]"
        "LensOf Violation" 100000000]
    by (simp add: filteredData_def within_ms_def mk_obs_def)
qed

subsection \<open>ClusterSizer\<close>

text \<open>
  C8. For every integer count the tier is large above 50, medium above 10 and up to
  50, and small otherwise, each tier with its fixed pixel preset (50, 40, 32); in
  particular 51 is large, 11 is medium and 10 is small.
\<close>

theorem sizeTier_thresholds:
  "sizeTier n =
     (if n > 50 then (Large, \<lparr>width = 50, height = 50, fontSize = ''16px''\<rparr>)
      else if 10 < n \<and> n \<le> 50
           then (Medium, \<lparr>width = 40, height = 40, fontSize = ''14px''\<rparr>)
      else (Small, \<lparr>width = 32, height = 32, fontSize = ''12px''\<rparr>))
   \<and> fst (sizeTier 51) = Large \<and> fst (sizeTier 11) = Medium \<and> fst (sizeTier 10) = Small"
  by (simp add: sizeTier_def getClusterSize_def)

subsection \<open>StatsCalculator\<close>

lemma show_nat_digit: "n < 10 \<Longrightarrow> show_nat n = [digit_char n]"
  by (simp add: show_nat.simps)

lemma show_nat_step: "10 \<le> n \<Longrightarrow> show_nat n = show_nat (n div 10) @ [digit_char (n mod 10)]"
  by (subst show_nat.simps) simp

lemma show_nat_nonempty: "show_nat n \<noteq> []"
  by (subst show_nat.simps) simp

lemma toFixed1_nonneg_one_decimal:
  "toFixed1_nonneg x = one_decimal (nat \<lfloor>x * 10 + 1 / 2\<rfloor>)"
proof -
  define n where "n = nat \<lfloor>x * 10 + 1 / 2\<rfloor>"
  show ?thesis
  proof (cases "n < 10")
    case True
    then have "n div 10 = 0" "n mod 10 = n"
      by simp_all
    with True show ?thesis
      by (simp add: toFixed1_nonneg_def one_decimal_def n_def [symmetric] show_nat_digit
                    digit_char_def)
  next
    case False
    then have step: "show_nat n = show_nat (n div 10) @ [digit_char (n mod 10)]"
      by (simp add: show_nat_step)
    have "length (show_nat (n div 10)) \<noteq> 0"
      using show_nat_nonempty by simp
    then have "\<not> length (show_nat n) \<le> 1"
      by (simp add: step)
    then show ?thesis
      by (simp add: toFixed1_nonneg_def one_decimal_def n_def [symmetric] Let_def step)
  qed
qed

lemma total_calculateObservationStats:
  "stats.total (calculateObservationStats ar xs) = length xs"
  by (simp add: calculateObservationStats_def Let_def)

text \<open>
  The guarded statistics of road.old.js never yield \<open>NaN\<close>, in any arithmetic whose
  sum, product and quotient by a non-zero number of two finite numbers are not
  \<open>NaN\<close> (as IEEE 754 has it): every division is by a length that is not zero.
\<close>

lemma one_decimal_not_NaN: "one_decimal n \<noteq> ''NaN''"
proof
  assume "one_decimal n = ''NaN''"
  then have "CHR ''.'' \<in> set ''NaN''"
    unfolding one_decimal_def by (metis in_set_conv_decomp append_Cons)
  then show False by simp
qed

lemma toFixed1_not_NaN: "v \<noteq> NaN \<Longrightarrow> toFixed1 v \<noteq> ''NaN''"
  by (cases v) (simp_all add: toFixed1_nonneg_one_decimal one_decimal_not_NaN)

lemma js_add_not_NaN:
  assumes "\<And>a b. fl_add ar (Num a) (Num b) \<noteq> NaN" and "acc \<noteq> NaN"
  shows "js_add ar acc (Num r) \<noteq> NaN"
  using assms by (cases acc) simp_all

lemma sum_positive_not_NaN:
  assumes add: "\<And>a b. fl_add ar (Num a) (Num b) \<noteq> NaN" and "acc \<noteq> NaN"
  shows "foldl (\<lambda>acc obs. js_add ar acc (to_number (response_time obs))) acc
           (filter (\<lambda>obs. truthy (response_time obs) \<and> positive (response_time obs)) xs) \<noteq> NaN"
  using assms(2)
proof (induction xs arbitrary: acc)
  case Nil
  then show ?case by simp
next
  case (Cons obs xs)
  show ?case
  proof (cases "response_time obs")
    case None
    then show ?thesis using Cons by simp
  next
    case (Some r)
    have "js_add ar acc (Num r) \<noteq> NaN"
      using add Cons.prems by (rule js_add_not_NaN)
    with Some show ?thesis
      using Cons.IH [of "js_add ar acc (Num r)"] Cons.IH [of acc] Cons.prems by simp
  qed
qed

lemma js_div_length_not_NaN:
  assumes "\<And>a b. b \<noteq> 0 \<Longrightarrow> fl_div ar (Num a) (Num b) \<noteq> NaN" and "v \<noteq> NaN" and "n \<noteq> 0"
  shows "js_div_length ar v n \<noteq> NaN"
  using assms by (cases v) simp_all

lemma js_times_100_not_NaN:
  assumes "\<And>a b. fl_mul ar (Num a) (Num b) \<noteq> NaN" and "v \<noteq> NaN"
  shows "js_times_100 ar v \<noteq> NaN"
  using assms by (cases v) simp_all

lemma Math_round_not_NaN: "v \<noteq> NaN \<Longrightarrow> Math_round v \<noteq> NaN"
  by (cases v) simp_all

lemma calculateObservationStats_never_NaN:
  assumes add: "\<And>a b. fl_add ar (Num a) (Num b) \<noteq> NaN"
    and div: "\<And>a b. b \<noteq> 0 \<Longrightarrow> fl_div ar (Num a) (Num b) \<noteq> NaN"
    and mul: "\<And>a b. fl_mul ar (Num a) (Num b) \<noteq> NaN"
  shows "avgResponseTime (calculateObservationStats ar xs) \<noteq> NaN
         \<and> reviewRate (calculateObservationStats ar xs) \<noteq> ''NaN''"
proof (cases "xs = []")
  case True
  then show ?thesis by (simp add: calculateObservationStats_def)
next
  case False
  let ?w = "filter (\<lambda>obs. truthy (response_time obs) \<and> positive (response_time obs)) xs"
  have sum: "sum_response_time ar ?w \<noteq> NaN"
    unfolding sum_response_time_def using add by (rule sum_positive_not_NaN) simp
  have avg: "Math_round (js_div_length ar (sum_response_time ar ?w) (length ?w)) \<noteq> NaN"
    if "?w \<noteq> []"
    using that by (intro Math_round_not_NaN js_div_length_not_NaN div sum) simp_all
  have rate: "toFixed1 (js_times_100 ar (js_div_length ar
                 (Num (real (length (filter (\<lambda>obs. status obs \<noteq> Pending) xs)))) (length xs)))
              \<noteq> ''NaN''"
    using False by (intro toFixed1_not_NaN js_times_100_not_NaN mul js_div_length_not_NaN div)
                   simp_all
  from False avg rate show ?thesis
    by (simp add: calculateObservationStats_def Let_def)
qed

text \<open>
  C1. The statistics are total and never \<open>NaN\<close>. App.js computes them without the
  tests of road.old.js: on the empty list its average is \<open>Math.round(0 / 0)\<close> and its
  review rate \<open>(0 / 0 * 100).toFixed(1)\<close>, in every arithmetic.
\<close>

theorem calculateStats_empty_NaN:
  "avgResponseTime (calculateStats ar []) = NaN \<and> reviewRate (calculateStats ar []) = ''NaN''
   \<and> avgResponseTime (calculateObservationStats ar []) = Num 0
   \<and> reviewRate (calculateObservationStats ar []) = ''0.0''"
  by (simp add: calculateStats_def calculateObservationStats_def sum_response_time_def)

subsection \<open>The statistics shown for a viewport\<close>

text \<open>
  C10. The statistics are computed over the visible observations only when there is
  one; when the visible list is empty they are those of the whole filtered list. So
  after the tracking of a viewport that contains no filtered observation, the
  statistics are the filtered list's, with its length as total.
\<close>

theorem stats_memo_fallback:
  "stats_memo ar visibleObservations filtered
     = (if visibleObservations \<noteq> [] then calculateObservationStats ar visibleObservations
        else calculateObservationStats ar filtered)
   \<and> ((\<forall>obs \<in> set filtered. \<not> contains b (lat obs, lng obs))
        \<longrightarrow> updateVisibleObservations b filtered prev = []
            \<and> stats_memo ar (updateVisibleObservations b filtered prev) filtered
                = calculateObservationStats ar filtered
            \<and> stats.total (stats_memo ar (updateVisibleObservations b filtered prev) filtered)
                = length filtered)"
proof -
  have first: "stats_memo ar visibleObservations filtered
     = (if visibleObservations \<noteq> [] then calculateObservationStats ar visibleObservations
        else calculateObservationStats ar filtered)"
    by (simp add: stats_memo_def)
  have second: "updateVisibleObservations b filtered prev = []"
    if "\<forall>obs \<in> set filtered. \<not> contains b (lat obs, lng obs)"
  proof -
    from that have "filter (\<lambda>obs. contains b (lat obs, lng obs)) filtered = []"
      by (simp add: filter_empty_conv)
    then show ?thesis
      by (auto simp: updateVisibleObservations_def)
  qed
  show ?thesis
    using first second
    by (auto simp: stats_memo_def total_calculateObservationStats)
qed

theorem stats_memo_fallback_witness:
  "list_all (\<lambda>obs. \<not> contains \<lparr>south = 20, west = 70, north = 21, east = 75\<rparr> (lat obs, lng obs))
       [mk_obs ''obs_0000'' Violation 19 72 99000000 Pending None,
        mk_obs ''obs_0001'' Risk 19 73 99000000 Resolved (Some 3)]
   \<and> updateVisibleObservations \<lparr>south = 20, west = 70, north = 21, east = 75\<rparr>
        [mk_obs ''obs_0000'' Violation 19 72 99000000 Pending None,
         mk_obs ''obs_0001'' Risk 19 73 99000000 Resolved (Some 3)]
        [mk_obs ''obs_0000'' Violation 19 72 99000000 Pending None] = []
   \<and> stats.total (stats_memo exact_arith
        (updateVisibleObservations \<lparr>south = 20, west = 70, north = 21, east = 75\<rparr>
          [mk_obs ''obs_0000'' Violation 19 72 99000000 Pending None,
           mk_obs ''obs_0001'' Risk 19 73 99000000 Resolved (Some 3)]
          [mk_obs ''obs_0000'' Violation 19 72 99000000 Pending None])
        [mk_obs ''obs_0000'' Violation 19 72 99000000 Pending None,
         mk_obs ''obs_0001'' Risk 19 73 99000000 Resolved (Some 3)]) = 2"
proof -
  have h: "\<forall>obs \<in> set [mk_obs ''obs_0000'' Violation 19 72 99000000 Pending None,
                  mk_obs ''obs_0001'' Risk 19 73 99000000 Resolved (Some 3)].
       \<not> contains \<lparr>south = 20, west = 70, north = 21, east = 75\<rparr> (lat obs, lng obs)"
    by (simp add: contains_def mk_obs_def)
  show ?thesis
    using h stats_memo_fallback
      [of exact_arith "[]" "[mk_obs ''obs_0000'' Violation 19 72 99000000 Pending None,
                 mk_obs ''obs_0001'' Risk 19 73 99000000 Resolved (Some 3)]"
          "\<lparr>south = 20, west = 70, north = 21, east = 75\<rparr>"
          "[mk_obs ''obs_0000'' Violation 19 72 99000000 Pending None]"]
    by (simp add: total_calculateObservationStats)
qed

subsection \<open>SpatialMath: the distance when nothing is rounded\<close>

text \<open>
  In the arithmetic without rounding the quantity \<open>a\<close> lies between 0 and 1, so no
  square root fails, and \<^verbatim>\<open>getDistance\<close> is the Haversine distance: symmetric, and
  zero from a point to itself. The lemmas of this subsection are about the formula;
  they say nothing of the doubles, where \<open>a\<close> can be rounded above 1.
\<close>

lemma sin_half_sq: "sin (x / 2) * sin (x / 2) = (1 - cos x) / 2" for x :: real
  using cos_double_sin [of "x / 2"] by (simp add: power2_eq_square)

lemma haversine_a_alt:
  "haversine_a lat1 lng1 lat2 lng2 =
     (1 - (1 - (1 - cos ((lng2 - lng1) * pi / 180)) / 2) * cos ((lat2 - lat1) * pi / 180)
        + (1 - cos ((lng2 - lng1) * pi / 180)) / 2 * cos ((lat1 + lat2) * pi / 180)) / 2"
proof -
  have cc: "cos (lat1 * pi / 180) * cos (lat2 * pi / 180)
            = (cos ((lat2 - lat1) * pi / 180) + cos ((lat1 + lat2) * pi / 180)) / 2"
  proof -
    have "cos (lat1 * pi / 180) * cos (lat2 * pi / 180)
          = (cos (lat1 * pi / 180 - lat2 * pi / 180) + cos (lat1 * pi / 180 + lat2 * pi / 180)) / 2"
      by (rule cos_times_cos)
    also have "lat1 * pi / 180 - lat2 * pi / 180 = - ((lat2 - lat1) * pi / 180)"
      by (simp add: field_simps)
    also have "lat1 * pi / 180 + lat2 * pi / 180 = (lat1 + lat2) * pi / 180"
      by (simp add: field_simps)
    finally show ?thesis by simp
  qed
  have arith: "(1 - u) / 2 + ((u + v) / 2) * ((1 - w) / 2)
               = (1 - (1 - (1 - w) / 2) * u + (1 - w) / 2 * v) / 2" for u v w :: real
    by (simp add: field_simps)
  have "haversine_a lat1 lng1 lat2 lng2
        = sin ((lat2 - lat1) * pi / 180 / 2) * sin ((lat2 - lat1) * pi / 180 / 2)
          + (cos (lat1 * pi / 180) * cos (lat2 * pi / 180))
            * (sin ((lng2 - lng1) * pi / 180 / 2) * sin ((lng2 - lng1) * pi / 180 / 2))"
    by (simp add: haversine_a_def Let_def mult.assoc)
  also have "\<dots> = (1 - cos ((lat2 - lat1) * pi / 180)) / 2
          + ((cos ((lat2 - lat1) * pi / 180) + cos ((lat1 + lat2) * pi / 180)) / 2)
            * ((1 - cos ((lng2 - lng1) * pi / 180)) / 2)"
    unfolding sin_half_sq cc ..
  also have "\<dots> = (1 - (1 - (1 - cos ((lng2 - lng1) * pi / 180)) / 2) * cos ((lat2 - lat1) * pi / 180)
        + (1 - cos ((lng2 - lng1) * pi / 180)) / 2 * cos ((lat1 + lat2) * pi / 180)) / 2"
    by (rule arith)
  finally show ?thesis .
qed

lemma convex_bound:
  fixes s u v :: real
  assumes "0 \<le> s" "s \<le> 1" "\<bar>u\<bar> \<le> 1" "\<bar>v\<bar> \<le> 1"
  shows "\<bar>(1 - s) * u - s * v\<bar> \<le> 1"
proof -
  have "\<bar>(1 - s) * u - s * v\<bar> \<le> \<bar>(1 - s) * u\<bar> + \<bar>s * v\<bar>"
    by (rule abs_triangle_ineq4)
  also have "\<dots> = (1 - s) * \<bar>u\<bar> + s * \<bar>v\<bar>"
    using assms by (simp add: abs_mult)
  also have "\<dots> \<le> (1 - s) * 1 + s * 1"
    using assms by (intro add_mono mult_left_mono) auto
  finally show ?thesis by simp
qed

lemma haversine_a_range: "0 \<le> haversine_a lat1 lng1 lat2 lng2 \<and> haversine_a lat1 lng1 lat2 lng2 \<le> 1"
proof -
  define s where "s = (1 - cos ((lng2 - lng1) * pi / 180)) / 2"
  define u where "u = cos ((lat2 - lat1) * pi / 180)"
  define v where "v = cos ((lat1 + lat2) * pi / 180)"
  have s: "0 \<le> s" "s \<le> 1"
    using cos_le_one [of "(lng2 - lng1) * pi / 180"] cos_ge_minus_one [of "(lng2 - lng1) * pi / 180"]
    by (simp_all add: s_def)
  have uv: "\<bar>u\<bar> \<le> 1" "\<bar>v\<bar> \<le> 1"
    by (simp_all add: u_def v_def abs_cos_le_one)
  have "haversine_a lat1 lng1 lat2 lng2 = (1 - ((1 - s) * u - s * v)) / 2"
    by (simp add: haversine_a_alt s_def u_def v_def)
  moreover from convex_bound [OF s uv] have "- 1 \<le> (1 - s) * u - s * v" "(1 - s) * u - s * v \<le> 1"
    by (simp_all add: abs_le_iff)
  ultimately show ?thesis by simp
qed

lemma haversine_a_sym: "haversine_a lat1 lng1 lat2 lng2 = haversine_a lat2 lng2 lat1 lng1"
proof -
  have flip: "(x - y) * pi / 180 = - ((y - x) * pi / 180)" for x y :: real
    by (simp add: field_simps)
  have "cos ((lat1 - lat2) * pi / 180) = cos ((lat2 - lat1) * pi / 180)"
    by (simp only: flip [of lat1 lat2] cos_minus)
  moreover have "cos ((lng1 - lng2) * pi / 180) = cos ((lng2 - lng1) * pi / 180)"
    by (simp only: flip [of lng1 lng2] cos_minus)
  ultimately show ?thesis
    by (simp add: haversine_a_alt add.commute)
qed

lemma haversine_a_self: "haversine_a la lo la lo = 0"
  by (simp add: haversine_a_def)

lemma getDistance_exact:
  "getDistance exact_arith lat1 lng1 lat2 lng2
   = Num (6371000 * (2 * atan2 (sqrt (haversine_a lat1 lng1 lat2 lng2))
                               (sqrt (1 - haversine_a lat1 lng1 lat2 lng2))))"
proof -
  let ?a = "haversine_a lat1 lng1 lat2 lng2"
  have a: "fl_add exact_arith
             (fl_mul exact_arith
                (fl_sin exact_arith (fl_div exact_arith
                   (fl_div exact_arith (fl_mul exact_arith
                      (fl_sub exact_arith (Num lat2) (Num lat1)) (fl_PI exact_arith)) (Num 180))
                   (Num 2)))
                (fl_sin exact_arith (fl_div exact_arith
                   (fl_div exact_arith (fl_mul exact_arith
                      (fl_sub exact_arith (Num lat2) (Num lat1)) (fl_PI exact_arith)) (Num 180))
                   (Num 2))))
             (fl_mul exact_arith
                (fl_mul exact_arith
                   (fl_mul exact_arith
                      (fl_cos exact_arith (fl_div exact_arith
                         (fl_mul exact_arith (Num lat1) (fl_PI exact_arith)) (Num 180)))
                      (fl_cos exact_arith (fl_div exact_arith
                         (fl_mul exact_arith (Num lat2) (fl_PI exact_arith)) (Num 180))))
                   (fl_sin exact_arith (fl_div exact_arith
                      (fl_div exact_arith (fl_mul exact_arith
                         (fl_sub exact_arith (Num lng2) (Num lng1)) (fl_PI exact_arith)) (Num 180))
                      (Num 2))))
                (fl_sin exact_arith (fl_div exact_arith
                   (fl_div exact_arith (fl_mul exact_arith
                      (fl_sub exact_arith (Num lng2) (Num lng1)) (fl_PI exact_arith)) (Num 180))
                   (Num 2))))
           = Num ?a"
    by (simp add: exact_arith_def haversine_a_def Let_def)
  have r: "\<not> ?a < 0" "\<not> 1 - ?a < 0"
    using haversine_a_range [of lat1 lng1 lat2 lng2] by simp_all
  show ?thesis
    unfolding getDistance_def Let_def a
    using r by (simp add: exact_arith_def)
qed

lemma getDistance_exact_sym:
  "getDistance exact_arith lat1 lng1 lat2 lng2 = getDistance exact_arith lat2 lng2 lat1 lng1"
  by (simp add: getDistance_exact haversine_a_sym [of lat1 lng1 lat2 lng2])

lemma getDistance_exact_self: "getDistance exact_arith la lo la lo = Num 0"
  by (simp add: getDistance_exact haversine_a_self atan2_def)

lemma atan2_arcsin:
  assumes "0 \<le> a" "a \<le> 1"
  shows "atan2 (sqrt a) (sqrt (1 - a)) = arcsin (sqrt a)"
proof (cases "a = 1")
  case True
  then show ?thesis by (simp add: atan2_def)
next
  case False
  with assms have lt: "a < 1" by simp
  then have pos: "0 < sqrt (1 - a)" by simp
  have "sqrt a < 1" using lt assms by (simp add: real_sqrt_lt_1_iff)
  moreover have "- 1 < sqrt a" using assms by (smt (verit) real_sqrt_ge_zero)
  ultimately have "arcsin (sqrt a) = arctan (sqrt a / sqrt (1 - (sqrt a)\<^sup>2))"
    by (intro arcsin_arctan)
  with assms pos show ?thesis by (simp add: atan2_def)
qed

lemma getDistance_exact_haversine:
  "getDistance exact_arith lat1 lng1 lat2 lng2 = Num (haversine_distance lat1 lng1 lat2 lng2)"
proof -
  have r: "0 \<le> haversine_a lat1 lng1 lat2 lng2" "haversine_a lat1 lng1 lat2 lng2 \<le> 1"
    using haversine_a_range by simp_all
  have "haversine_a lat1 lng1 lat2 lng2 = (sin ((lat2 - lat1) * pi / 360))\<^sup>2
                                 + cos (lat1 * pi / 180) * cos (lat2 * pi / 180)
                                   * (sin ((lng2 - lng1) * pi / 360))\<^sup>2"
    by (simp add: haversine_a_def power2_eq_square mult.assoc)
  then show ?thesis
    using atan2_arcsin [OF r] by (simp add: getDistance_exact haversine_distance_def)
qed

subsection \<open>PatternAnalyzer\<close>















lemma sorted_nth0_Min: "sorted ys \<Longrightarrow> ys \<noteq> [] \<Longrightarrow> ys ! 0 = Min (set ys)" for ys :: "real list"
  by (cases ys) (auto intro!: Min_eqI [symmetric])

lemma sorted_last_Max:
  "sorted ys \<Longrightarrow> ys \<noteq> [] \<Longrightarrow> ys ! (length ys - 1) = Max (set ys)" for ys :: "real list"
proof -
  assume s: "sorted ys" and ne: "ys \<noteq> []"
  have "y \<le> ys ! (length ys - 1)" if "y \<in> set ys" for y
  proof -
    from that obtain i where "i < length ys" "ys ! i = y"
      by (auto simp: in_set_conv_nth)
    with s show ?thesis
      using sorted_nth_mono [of ys i "length ys - 1"] by auto
  qed
  moreover from ne have "ys ! (length ys - 1) \<in> set ys"
    by simp
  ultimately show ?thesis
    by (intro Max_eqI [symmetric]) auto
qed

lemma timeSpan_sorted:
  fixes xs :: "real list"
  assumes "xs \<noteq> []"
  shows "sort xs ! (length (sort xs) - 1) - sort xs ! 0 = Max (set xs) - Min (set xs)"
proof -
  have "sort xs \<noteq> []"
    using assms by (metis length_0_conv length_sort)
  then show ?thesis
    using sorted_nth0_Min [of "sort xs"] sorted_last_Max [of "sort xs"] by simp
qed



lemma classify_trend_older_0: "0 < recent \<Longrightarrow> classify_trend recent 0 = Increasing"
  by (simp add: classify_trend_def)



text \<open>
  The local analysis keeps the filtered observations of the reference's type whose
  computed distance to the reference is a number that is at most the radius; its
  statistics are null exactly when it keeps none, and otherwise count them and give
  the days, rounded up, from the earliest to the latest timestamp.
\<close>

lemma getNearbyObservations_filter:
  "getNearbyObservations ar (filter P xs) la lo r
   = filter (\<lambda>obs. P obs \<and> js_le (getDistance ar la lo (lat obs) (lng obs)) (Num r)) xs"
  by (simp add: getNearbyObservations_def conj_commute)

lemma calculateLocalStats_None: "calculateLocalStats xs w now = None \<longleftrightarrow> xs = []"
  by (simp add: calculateLocalStats_def Let_def)

lemma calculateLocalStats_Some:
  assumes "xs \<noteq> []"
  shows "\<exists>st. calculateLocalStats xs w now = Some st \<and> count st = length xs
           \<and> timeSpanDays st = \<lceil>(Max (timestamp ` set xs) - Min (timestamp ` set xs)) / 86400000\<rceil>"
proof -
  from assms have "map timestamp xs \<noteq> []" by simp
  from timeSpan_sorted [OF this] assms show ?thesis
    by (simp add: calculateLocalStats_def Let_def)
qed

lemma localPattern_structure:
  "fst (localPattern ar reference filtered radiusMeters w now)
     = filter (\<lambda>obs. obs_type obs = obs_type reference
                    \<and> js_le (getDistance ar (lat reference) (lng reference) (lat obs) (lng obs))
                            (Num radiusMeters)) filtered
   \<and> (snd (localPattern ar reference filtered radiusMeters w now) = None
        \<longleftrightarrow> fst (localPattern ar reference filtered radiusMeters w now) = [])
   \<and> (fst (localPattern ar reference filtered radiusMeters w now) \<noteq> []
        \<longrightarrow> (\<exists>st. snd (localPattern ar reference filtered radiusMeters w now) = Some st
                 \<and> count st = length (fst (localPattern ar reference filtered radiusMeters w now))
                 \<and> timeSpanDays st
                     = \<lceil>(Max (timestamp ` set (fst (localPattern ar reference filtered radiusMeters w now)))
                         - Min (timestamp ` set (fst (localPattern ar reference filtered radiusMeters w now))))
                        / 86400000\<rceil>))"
proof -
  let ?m = "fst (localPattern ar reference filtered radiusMeters w now)"
  let ?s = "snd (localPattern ar reference filtered radiusMeters w now)"
  have m: "?m = filter (\<lambda>obs. obs_type obs = obs_type reference
                    \<and> js_le (getDistance ar (lat reference) (lng reference) (lat obs) (lng obs))
                            (Num radiusMeters)) filtered"
    by (simp add: localPattern_def Let_def getNearbyObservations_filter)
  have s: "?s = calculateLocalStats ?m w now"
    by (simp add: localPattern_def Let_def)
  show ?thesis
    using m calculateLocalStats_None [of ?m w now] calculateLocalStats_Some [of ?m w now]
    unfolding s by blast
qed

text \<open>
  An observation whose computed distance is \<open>NaN\<close> is not kept, whatever the radius.
\<close>

lemma localPattern_drops_NaN:
  "getDistance ar (lat reference) (lng reference) (lat obs) (lng obs) = NaN
   \<Longrightarrow> obs \<notin> set (fst (localPattern ar reference filtered radiusMeters w now))"
  by (simp add: localPattern_def Let_def getNearbyObservations_filter)

subsection \<open>PatternModeController and the selection\<close>

lemma find_None_iff_ids:
  "find (\<lambda>obs. obs_id obs = i) xs = None \<longleftrightarrow> i \<notin> obs_id ` set xs"
  by (auto simp: find_None_iff)

lemma deselect_effect_selected:
  "selectedObservation (deselect_effect s) = Some sel
   \<Longrightarrow> obs_id sel \<in> obs_id ` set (filteredData_memo s) \<and> selectedObservation s = Some sel"
  by (auto simp: deselect_effect_def find_None_iff_ids split: option.splits if_splits)

lemma deselect_effect_frame:
  "observations (deselect_effect s) = observations s"
  "lens (deselect_effect s) = lens s"
  "timeFilter (deselect_effect s) = timeFilter s"
  "filteredData_memo (deselect_effect s) = filteredData_memo s"
  "patternMode (deselect_effect s) = patternMode s"
  "patternData (deselect_effect s) = patternData s"
  "savedMapState (deselect_effect s) = savedMapState s"
  "mapInstance (deselect_effect s) = mapInstance s"
  "localPatternCircle (deselect_effect s) = localPatternCircle s"
  by (simp_all add: deselect_effect_def split: option.splits)

lemma deselect_effect_selected_cases:
  "selectedObservation (deselect_effect s) = None
   \<or> selectedObservation (deselect_effect s) = selectedObservation s"
  by (simp add: deselect_effect_def split: option.splits)

lemma deselect_effect_id:
  "selectedObservation s = None \<Longrightarrow> deselect_effect s = s"
  "selectedObservation s = Some sel \<Longrightarrow> obs_id sel \<in> obs_id ` set (filteredData_memo s)
     \<Longrightarrow> deselect_effect s = s"
  by (auto simp: deselect_effect_def find_None_iff_ids)

lemma deselect_effect_clears:
  "selectedObservation s = Some sel \<Longrightarrow> obs_id sel \<notin> obs_id ` set (filteredData_memo s)
     \<Longrightarrow> selectedObservation (deselect_effect s) = None \<and> \<not> expandedDetail (deselect_effect s)"
  by (auto simp: deselect_effect_def find_None_iff_ids)

lemma filteredData_subset: "set (filteredData corpus l tf now) \<subseteq> set corpus"
  by (simp add: filteredData_eq_filter)

lemma controller_inv_initial: "controller_inv (initial_state corpus now)"
  using filteredData_subset [of corpus LensAll W30d now]
  by (simp add: controller_inv_def initial_state_def)

lemma controller_inv_deselect: "controller_inv s \<Longrightarrow> controller_inv (deselect_effect s)"
  using deselect_effect_selected_cases [of s]
  by (auto simp: controller_inv_def deselect_effect_frame)

lemma controller_inv_handler:
  assumes "controller_inv s" "deliverable ev s"
  shows "controller_inv (handler fb ar ev s)"
proof (cases ev)
  case (SetLens l now)
  then show ?thesis
    using assms filteredData_subset [of "observations s" l "timeFilter s" now]
    by (auto simp: controller_inv_def setLens_def)
next
  case (SetTimeFilter w now)
  then show ?thesis
    using assms filteredData_subset [of "observations s" "lens s" w now]
    by (auto simp: controller_inv_def setTimeFilter_def)
next
  case (MarkerClick obs)
  then show ?thesis
    using assms by (auto simp: controller_inv_def marker_click_def)
next
  case Back
  then show ?thesis using assms by (auto simp: controller_inv_def onBack_def)
next
  case ToggleExpanded
  then show ?thesis using assms by (auto simp: controller_inv_def onToggleExpanded_def)
next
  case OpenSidebar
  then show ?thesis using assms by (auto simp: controller_inv_def)
next
  case (CityWidePattern now)
  then show ?thesis
    using assms
    by (auto simp: controller_inv_def handleCityWidePattern_def Let_def split: option.splits)
next
  case (LocalPattern now)
  then show ?thesis
    using assms
    by (auto simp: controller_inv_def handleLocalPattern_def Let_def split: option.splits)
next
  case ClearPattern
  then show ?thesis
    using assms
    by (auto simp: controller_inv_def handleClearPatternMode_def split: option.splits)
next
  case MapCreated
  then show ?thesis using assms by (auto simp: controller_inv_def)
next
  case (MapMoved v)
  then show ?thesis using assms by (auto simp: controller_inv_def)
qed

lemma reachable_inv: "reachable fb ar s \<Longrightarrow> controller_inv s"
proof (induction rule: reachable.induct)
  case (initial corpus now)
  show ?case by (rule controller_inv_initial)
next
  case (after s ev)
  then show ?case
    unfolding step_def by (intro controller_inv_deselect controller_inv_handler)
qed

lemma reachable_selected_id:
  assumes "reachable fb ar s" "selectedObservation s = Some sel"
  shows "obs_id sel \<in> obs_id ` set (filteredData_memo s)"
  using assms
proof (induction rule: reachable.induct)
  case (initial corpus now)
  then show ?case by (simp add: initial_state_def)
next
  case (after s ev)
  from after.prems show ?case
    unfolding step_def
    using deselect_effect_selected [of "handler fb ar ev s" sel]
    by (simp add: deselect_effect_frame)
qed

lemma reachable_selected_member:
  assumes "reachable fb ar s" "selectedObservation s = Some sel"
    and "distinct (map obs_id (observations s))"
  shows "sel \<in> set (filteredData_memo s)"
proof -
  from reachable_selected_id [OF assms(1,2)] obtain obs
    where obs: "obs \<in> set (filteredData_memo s)" "obs_id obs = obs_id sel"
    by auto
  from reachable_inv [OF assms(1)] have "set (filteredData_memo s) \<subseteq> set (observations s)"
    and "sel \<in> set (observations s)"
    using assms(2) by (auto simp: controller_inv_def)
  with obs have "obs \<in> set (observations s)" "sel \<in> set (observations s)"
    by auto
  with assms(3) obs(2) have "obs = sel"
    by (meson distinct_map inj_onD)
  with obs(1) show ?thesis by simp
qed


lemma handleClearPatternMode_no_saved:
  "savedMapState s = None \<Longrightarrow> handleClearPatternMode s = s"
  by (simp add: handleClearPatternMode_def split: option.splits)

lemma step_ClearPattern_NONE:
  assumes "reachable fb ar s" "patternMode s = NONE"
  shows "step fb ar ClearPattern s = s"
proof -
  from reachable_inv [OF assms(1)] assms(2) have "savedMapState s = None"
    by (simp add: controller_inv_def)
  then have h: "handleClearPatternMode s = s"
    by (rule handleClearPatternMode_no_saved)
  show ?thesis
  proof (cases "selectedObservation s")
    case None
    then show ?thesis by (simp add: step_def h deselect_effect_id(1))
  next
    case (Some sel)
    with reachable_selected_id [OF assms(1) Some] show ?thesis
      by (simp add: step_def h deselect_effect_id(2))
  qed
qed

lemma step_CityWidePattern:
  assumes "selectedObservation s = Some sel" "mapInstance s = Some m"
  shows "step fb ar (CityWidePattern now) s = handleCityWidePattern fb ar now s"
    and "patternMode (handleCityWidePattern fb ar now s) = CITY_WIDE"
    and "selectedObservation (handleCityWidePattern fb ar now s) = None"
    and "savedMapState (handleCityWidePattern fb ar now s)
          = Some \<lparr>saved_center = center m, saved_zoom = zoom m, saved_selectedObservation = sel\<rparr>"
    and "mapInstance (handleCityWidePattern fb ar now s) \<noteq> None"
    and "filteredData_memo (handleCityWidePattern fb ar now s) = filteredData_memo s"
proof -
  show sel: "selectedObservation (handleCityWidePattern fb ar now s) = None"
    using assms by (simp add: handleCityWidePattern_def Let_def)
  then show "step fb ar (CityWidePattern now) s = handleCityWidePattern fb ar now s"
    by (simp add: step_def deselect_effect_id(1))
  show "patternMode (handleCityWidePattern fb ar now s) = CITY_WIDE"
    using assms by (simp add: handleCityWidePattern_def Let_def)
  show "savedMapState (handleCityWidePattern fb ar now s)
          = Some \<lparr>saved_center = center m, saved_zoom = zoom m, saved_selectedObservation = sel\<rparr>"
    using assms by (simp add: handleCityWidePattern_def Let_def)
  show "mapInstance (handleCityWidePattern fb ar now s) \<noteq> None"
    using assms by (simp add: handleCityWidePattern_def Let_def)
  show "filteredData_memo (handleCityWidePattern fb ar now s) = filteredData_memo s"
    using assms by (simp add: handleCityWidePattern_def Let_def)
qed

lemma handleClearPatternMode_restores:
  assumes "mapInstance s1 = Some m1"
    and "savedMapState s1 = Some \<lparr>saved_center = c, saved_zoom = z, saved_selectedObservation = sel\<rparr>"
  shows "patternMode (handleClearPatternMode s1) = NONE"
    and "savedMapState (handleClearPatternMode s1) = None"
    and "patternData (handleClearPatternMode s1) = None"
    and "selectedObservation (handleClearPatternMode s1) = Some sel"
    and "mapInstance (handleClearPatternMode s1) = Some (m1\<lparr>center := c, zoom := z\<rparr>)"
    and "filteredData_memo (handleClearPatternMode s1) = filteredData_memo s1"
  using assms by (simp_all add: handleClearPatternMode_def setView_def)

text \<open>
  C6. In a reachable state with pattern mode \<open>NONE\<close>, clearing the pattern changes
  nothing; and entering the city-wide mode on a selected observation and clearing at
  once returns to \<open>NONE\<close> with the centre, the zoom and the selection of before the
  entry.
\<close>

theorem cityWide_then_clear_restores:
  assumes "reachable fb ar s" "patternMode s = NONE"
  shows "step fb ar ClearPattern s = s
   \<and> (\<forall>sel m now. selectedObservation s = Some sel \<and> mapInstance s = Some m \<longrightarrow>
         patternMode (step fb ar (CityWidePattern now) s) = CITY_WIDE
         \<and> selectedObservation (step fb ar (CityWidePattern now) s) = None
         \<and> (let s2 = step fb ar ClearPattern (step fb ar (CityWidePattern now) s)
            in patternMode s2 = NONE \<and> savedMapState s2 = None \<and> patternData s2 = None
               \<and> selectedObservation s2 = Some sel
               \<and> (\<exists>m2. mapInstance s2 = Some m2 \<and> center m2 = center m \<and> zoom m2 = zoom m)))"
proof (intro conjI allI impI)
  show "step fb ar ClearPattern s = s"
    using assms by (rule step_ClearPattern_NONE)
next
  fix sel m now
  assume a: "selectedObservation s = Some sel \<and> mapInstance s = Some m"
  then have sel: "selectedObservation s = Some sel" and m: "mapInstance s = Some m"
    by simp_all
  note cw = step_CityWidePattern [OF sel m, of fb ar now]
  show "patternMode (step fb ar (CityWidePattern now) s) = CITY_WIDE"
    by (simp add: cw)
  show "selectedObservation (step fb ar (CityWidePattern now) s) = None"
    by (simp add: cw)
  let ?s1 = "handleCityWidePattern fb ar now s"
  from cw(5) obtain m1 where m1: "mapInstance ?s1 = Some m1"
    by auto
  note cl = handleClearPatternMode_restores [OF m1 cw(4)]
  have id: "obs_id sel \<in> obs_id ` set (filteredData_memo (handleClearPatternMode ?s1))"
    using reachable_selected_id [OF assms(1) sel] by (simp add: cl(6) cw(6))
  have "step fb ar ClearPattern (step fb ar (CityWidePattern now) s) = step fb ar ClearPattern ?s1"
    by (simp only: cw(1))
  also have "\<dots> = deselect_effect (handleClearPatternMode ?s1)"
    by (simp add: step_def)
  also have "\<dots> = handleClearPatternMode ?s1"
    by (rule deselect_effect_id(2) [OF cl(4) id])
  finally have s2:
    "step fb ar ClearPattern (step fb ar (CityWidePattern now) s) = handleClearPatternMode ?s1" .
  show "let s2 = step fb ar ClearPattern (step fb ar (CityWidePattern now) s)
        in patternMode s2 = NONE \<and> savedMapState s2 = None \<and> patternData s2 = None
           \<and> selectedObservation s2 = Some sel
           \<and> (\<exists>m2. mapInstance s2 = Some m2 \<and> center m2 = center m \<and> zoom m2 = zoom m)"
    unfolding s2 Let_def by (simp add: cl)
qed

text \<open>
  C9. In every reachable state the selection is empty or an observation of the current
  filtered list (by its id, and the very observation when the ids of the corpus are
  distinct); and when a change of the lens or of the time window leaves no observation
  with the selected id in the filtered list, the selection is cleared and the
  expanded-detail flag reset.
\<close>

theorem selection_never_dangling:
  assumes "reachable fb ar s"
  shows "(\<forall>sel. selectedObservation s = Some sel \<longrightarrow>
            (\<exists>obs \<in> set (filteredData_memo s). obs_id obs = obs_id sel)
            \<and> (distinct (map obs_id (observations s)) \<longrightarrow> sel \<in> set (filteredData_memo s)))
   \<and> (\<forall>sel ev. selectedObservation s = Some sel
          \<and> ((\<exists>l now. ev = SetLens l now) \<or> (\<exists>w now. ev = SetTimeFilter w now))
          \<and> obs_id sel \<notin> obs_id ` set (filteredData_memo (step fb ar ev s))
          \<longrightarrow> selectedObservation (step fb ar ev s) = None \<and> \<not> expandedDetail (step fb ar ev s))"
proof (intro conjI allI impI)
  fix sel
  assume sel: "selectedObservation s = Some sel"
  from reachable_selected_id [OF assms sel]
  show "\<exists>obs \<in> set (filteredData_memo s). obs_id obs = obs_id sel"
    by auto
  assume "distinct (map obs_id (observations s))"
  with assms sel show "sel \<in> set (filteredData_memo s)"
    by (rule reachable_selected_member)
next
  fix sel ev
  assume a: "selectedObservation s = Some sel
          \<and> ((\<exists>l now. ev = SetLens l now) \<or> (\<exists>w now. ev = SetTimeFilter w now))
          \<and> obs_id sel \<notin> obs_id ` set (filteredData_memo (step fb ar ev s))"
  then have keep: "selectedObservation (handler fb ar ev s) = Some sel"
    by (auto simp: setLens_def setTimeFilter_def)
  from a have "obs_id sel \<notin> obs_id ` set (filteredData_memo (handler fb ar ev s))"
    by (simp add: step_def deselect_effect_frame)
  from deselect_effect_clears [OF keep this]
  show "selectedObservation (step fb ar ev s) = None" "\<not> expandedDetail (step fb ar ev s)"
    by (simp_all add: step_def)
qed


lemma example_selected_value:
  "example_selected =
     \<lparr>observations = example_corpus, lens = LensAll, timeFilter = W30d,
      filteredData_memo = example_corpus,
      selectedObservation = Some (mk_obs ''obs_0000'' Violation 19 72 99000000 Pending None),
      expandedDetail = False, sidebarOpen = True,
      patternMode = NONE, patternData = None, savedMapState = None,
      mapInstance = Some \<lparr>center = (19.076, 72.8777), zoom = 12\<rparr>,
      localPatternCircle = None\<rparr>"
  by (simp add: example_selected_def step_def deselect_effect_def marker_click_def
                initial_state_def example_corpus_def filteredData_def within_ms_def mk_obs_def
                MAP_CONFIG_center_def MAP_CONFIG_initialZoom_def)

lemma example_selected_reachable: "reachable example_fitBounds exact_arith example_selected"
proof -
  have r0: "reachable example_fitBounds exact_arith (initial_state example_corpus 100000000)"
    by (rule reachable.initial)
  have r1: "reachable example_fitBounds exact_arith
              (step example_fitBounds exact_arith MapCreated (initial_state example_corpus 100000000))"
    by (rule reachable.after [OF r0]) simp
  show ?thesis
    unfolding example_selected_def
    by (rule reachable.after [OF r1])
       (simp add: step_def deselect_effect_def initial_state_def example_corpus_def
                  filteredData_def within_ms_def mk_obs_def)
qed

theorem cityWide_then_clear_restores_witness:
  "reachable example_fitBounds exact_arith example_selected \<and> patternMode example_selected = NONE
   \<and> selectedObservation example_selected
       = Some (mk_obs ''obs_0000'' Violation 19 72 99000000 Pending None)
   \<and> mapInstance example_selected = Some \<lparr>center = (19.076, 72.8777), zoom = 12\<rparr>
   \<and> mapInstance (step example_fitBounds exact_arith (CityWidePattern 100000000) example_selected)
       = Some \<lparr>center = (19.1, 72.45), zoom = 10\<rparr>
   \<and> patternMode (step example_fitBounds exact_arith (CityWidePattern 100000000) example_selected) = CITY_WIDE
   \<and> patternMode (step example_fitBounds exact_arith ClearPattern
        (step example_fitBounds exact_arith (CityWidePattern 100000000) example_selected)) = NONE
   \<and> selectedObservation (step example_fitBounds exact_arith ClearPattern
        (step example_fitBounds exact_arith (CityWidePattern 100000000) example_selected))
       = Some (mk_obs ''obs_0000'' Violation 19 72 99000000 Pending None)
   \<and> mapInstance (step example_fitBounds exact_arith ClearPattern
        (step example_fitBounds exact_arith (CityWidePattern 100000000) example_selected))
       = Some \<lparr>center = (19.076, 72.8777), zoom = 12\<rparr>
   \<and> step example_fitBounds exact_arith ClearPattern example_selected = example_selected"
proof -
  have mode: "patternMode example_selected = NONE"
    and sel: "selectedObservation example_selected
              = Some (mk_obs ''obs_0000'' Violation 19 72 99000000 Pending None)"
    and m: "mapInstance example_selected = Some \<lparr>center = (19.076, 72.8777), zoom = 12\<rparr>"
    by (simp_all add: example_selected_value)
  note th = cityWide_then_clear_restores [OF example_selected_reachable mode]
  from th have noop: "step example_fitBounds exact_arith ClearPattern example_selected = example_selected"
    by simp
  from th sel m have enter:
    "patternMode (step example_fitBounds exact_arith (CityWidePattern 100000000) example_selected) = CITY_WIDE"
    by blast
  from th sel m have restored:
    "let s2 = step example_fitBounds exact_arith ClearPattern
                (step example_fitBounds exact_arith (CityWidePattern 100000000) example_selected)
     in patternMode s2 = NONE \<and> savedMapState s2 = None \<and> patternData s2 = None
        \<and> selectedObservation s2 = Some (mk_obs ''obs_0000'' Violation 19 72 99000000 Pending None)
        \<and> (\<exists>m2. mapInstance s2 = Some m2
                \<and> center m2 = center \<lparr>center = (19.076, 72.8777), zoom = 12\<rparr>
                \<and> zoom m2 = zoom \<lparr>center = (19.076, 72.8777), zoom = 12\<rparr>)"
    by blast
  have "mapInstance (step example_fitBounds exact_arith (CityWidePattern 100000000) example_selected)
        = mapInstance (handleCityWidePattern example_fitBounds exact_arith 100000000 example_selected)"
    by (simp only: step_CityWidePattern(1) [OF sel m])
  also have "\<dots> = Some \<lparr>center = (19.1, 72.45), zoom = 10\<rparr>"
    by (simp add: example_selected_value handleCityWidePattern_def Let_def
                  getMatchingObservations_def example_corpus_def mk_obs_def
                  getBoundsForPoints_def example_fitBounds_def)
  finally have fit:
    "mapInstance (step example_fitBounds exact_arith (CityWidePattern 100000000) example_selected)
       = Some \<lparr>center = (19.1, 72.45), zoom = 10\<rparr>" .
  from restored have "mapInstance (step example_fitBounds exact_arith ClearPattern
        (step example_fitBounds exact_arith (CityWidePattern 100000000) example_selected))
       = Some \<lparr>center = (19.076, 72.8777), zoom = 12\<rparr>"
    by (auto simp: Let_def)
  with restored show ?thesis
    using example_selected_reachable mode sel m noop enter fit
    by (simp add: Let_def)
qed

theorem selection_never_dangling_witness:
  "reachable example_fitBounds exact_arith example_selected
   \<and> selectedObservation example_selected
       = Some (mk_obs ''obs_0000'' Violation 19 72 99000000 Pending None)
   \<and> mk_obs ''obs_0000'' Violation 19 72 99000000 Pending None
       \<in> set (filteredData_memo example_selected)
   \<and> filteredData_memo (step example_fitBounds exact_arith (SetLens (LensOf Risk) 100000000) example_selected)
       = [mk_obs ''obs_0001'' Risk 19.5 72.5 99000000 Resolved (Some 3)]
   \<and> selectedObservation
        (step example_fitBounds exact_arith (SetLens (LensOf Risk) 100000000) example_selected) = None
   \<and> \<not> expandedDetail
        (step example_fitBounds exact_arith (SetLens (LensOf Risk) 100000000) example_selected)"
proof -
  note th = selection_never_dangling [OF example_selected_reachable]
  have sel: "selectedObservation example_selected
              = Some (mk_obs ''obs_0000'' Violation 19 72 99000000 Pending None)"
    by (simp add: example_selected_value)
  have d: "distinct (map obs_id (observations example_selected))"
    by (simp add: example_selected_value example_corpus_def mk_obs_def)
  from th sel d have mem: "mk_obs ''obs_0000'' Violation 19 72 99000000 Pending None
       \<in> set (filteredData_memo example_selected)"
    by blast
  have fd: "filteredData_memo (step example_fitBounds exact_arith (SetLens (LensOf Risk) 100000000) example_selected)
       = [mk_obs ''obs_0001'' Risk 19.5 72.5 99000000 Resolved (Some 3)]"
    by (simp add: step_def deselect_effect_frame setLens_def example_selected_value
                  example_corpus_def filteredData_def within_ms_def mk_obs_def)
  have gone: "obs_id (mk_obs ''obs_0000'' Violation 19 72 99000000 Pending None)
        \<notin> obs_id ` set (filteredData_memo
              (step example_fitBounds exact_arith (SetLens (LensOf Risk) 100000000) example_selected))"
    unfolding fd by (simp add: mk_obs_def)
  from th sel gone have "selectedObservation
        (step example_fitBounds exact_arith (SetLens (LensOf Risk) 100000000) example_selected) = None
     \<and> \<not> expandedDetail
        (step example_fitBounds exact_arith (SetLens (LensOf Risk) 100000000) example_selected)"
    by blast
  with example_selected_reachable sel mem fd show ?thesis
    by simp
qed

end
